theory Spec2Isabelle
  imports Main
begin

section \<open>JavaScript values\<close>

text \<open>
  The library is untyped: its methods test their arguments for truthiness
  (\<^verbatim>\<open>if( x )\<close>), sniff them with \<^verbatim>\<open>what_is\<close> and index them
  (\<^verbatim>\<open>triple[0]\<close>). The values of the model are the absent values, booleans,
  integral numbers, strings, arrays and plain data objects.
\<close>

datatype jsval =
    JUndefined
  | JNull
  | JBool bool
  | JNum int
  | JStr string
  | JArr "jsval list"
  | JObj "(string \<times> jsval) list"

text \<open>JavaScript's ToBoolean: \<^verbatim>\<open>undefined\<close>, \<^verbatim>\<open>null\<close>, \<^verbatim>\<open>false\<close>,
  zero and the empty string are falsy; every other number and string, every
  array and every object is truthy.\<close>

fun truthy :: "jsval \<Rightarrow> bool" where
  "truthy JUndefined = False"
| "truthy JNull = False"
| "truthy (JBool b) = b"
| "truthy (JNum n) = (n \<noteq> 0)"
| "truthy (JStr s) = (s \<noteq> [])"
| "truthy (JArr xs) = True"
| "truthy (JObj kvs) = True"

text \<open>\<^verbatim>\<open>what_is\<close> of bbop-core names the kind of a value; the library only
  compares its result with \<^verbatim>\<open>'string'\<close> and \<^verbatim>\<open>'array'\<close>. The objects of
  the model are plain data, without the \<^verbatim>\<open>_is_a\<close> tag of bbop classes.\<close>

fun what_is :: "jsval \<Rightarrow> jsval" where
  "what_is JUndefined = JNull"
| "what_is JNull = JStr ''null''"
| "what_is (JBool b) = JStr ''boolean''"
| "what_is (JNum n) = JStr ''number''"
| "what_is (JStr s) = JStr ''string''"
| "what_is (JArr xs) = JStr ''array''"
| "what_is (JObj kvs) = JStr ''object''"

text \<open>The property name of an index: its decimal digits.\<close>

fun index_key :: "nat \<Rightarrow> string" where
  "index_key n =
     (if n < 10 then [char_of (48 + n)]
      else index_key (n div 10) @ [char_of (48 + n mod 10)])"

declare index_key.simps [simp del]

text \<open>\<^verbatim>\<open>v[i]\<close>: an array element, a one-character string, an object
  property, and \<^verbatim>\<open>undefined\<close> where there is none. Every read in the
  library is behind a truthiness test of \<open>v\<close>, so \<^verbatim>\<open>null[i]\<close> never runs.\<close>

fun js_index :: "jsval \<Rightarrow> nat \<Rightarrow> jsval" where
  "js_index (JArr xs) i = (if i < length xs then xs ! i else JUndefined)"
| "js_index (JStr s) i = (if i < length s then JStr [s ! i] else JUndefined)"
| "js_index (JObj kvs) i =
     (case map_of kvs (index_key i) of None \<Rightarrow> JUndefined | Some v \<Rightarrow> v)"
| "js_index JUndefined i = JUndefined"
| "js_index JNull i = JUndefined"
| "js_index (JBool b) i = JUndefined"
| "js_index (JNum n) i = JUndefined"

text \<open>The errors the library throws, by message, and the TypeError of the
  runtime when \<^verbatim>\<open>push\<close> is called on a stored value that is no array.\<close>

datatype error =
    Unknown_argument
  | Unknown_type_operation
  | Triple_not_proper_fact
  | No_target_for_evidence
  | Unknown_annotation_operation
  | Unknown_annotation_target
  | TypeError

section \<open>request_variable\<close>

record request_variable =
  rv_var :: jsval
  rv_use_var_p :: bool

text \<open>\<^verbatim>\<open>_value(value)\<close>, published as \<^verbatim>\<open>value\<close>: returns the variable
  after the call and the value returned.\<close>

definition value_rv :: "jsval \<Rightarrow> request_variable \<Rightarrow> request_variable \<times> jsval" where
  "value_rv v rv =
     (let rv' = (if truthy v then rv\<lparr>rv_var := v, rv_use_var_p := True\<rparr> else rv)
      in (rv', rv_var rv'))"

text \<open>The constructor. \<open>u\<close> is the string that \<^verbatim>\<open>uuid()\<close> of bbop-core returns
  for this variable.\<close>

definition new_request_variable :: "string \<Rightarrow> jsval \<Rightarrow> request_variable" where
  "new_request_variable u varvalue =
     fst (value_rv varvalue \<lparr>rv_var = JStr u, rv_use_var_p = False\<rparr>)"

definition set_p :: "request_variable \<Rightarrow> bool" where
  "set_p rv = rv_use_var_p rv"

section \<open>request\<close>

text \<open>The fields of a request. \<open>req_model_id\<close> is the field \<^verbatim>\<open>_model_id\<close>,
  which the constructor sets to \<^verbatim>\<open>null\<close> and nothing reads: the model id
  of a request lives in its arguments under \<^verbatim>\<open>'model-id'\<close>.\<close>

record request =
  req_entity :: string
  req_operation :: string
  req_model_id :: jsval
  req_individual_id :: request_variable
  req_arguments :: "string \<rightharpoonup> jsval"

text \<open>\<^verbatim>\<open>new request(entity, operation)\<close>; \<open>u\<close> is the uuid drawn for the
  request's variable.\<close>

definition new_request :: "string \<Rightarrow> string \<Rightarrow> string \<Rightarrow> request" where
  "new_request u entity operation =
     \<lparr>req_entity = entity, req_operation = operation, req_model_id = JNull,
      req_individual_id = new_request_variable u JUndefined,
      req_arguments = Map.empty\<rparr>"

text \<open>\<^verbatim>\<open>anchor._arguments[key]\<close>: a missing property reads as \<^verbatim>\<open>undefined\<close>.\<close>

definition req_arg :: "request \<Rightarrow> string \<Rightarrow> jsval" where
  "req_arg r key = (case req_arguments r key of None \<Rightarrow> JUndefined | Some v \<Rightarrow> v)"

text \<open>\<^verbatim>\<open>_ensure_list\<close>, \<^verbatim>\<open>_add\<close>, \<^verbatim>\<open>_get\<close> and \<^verbatim>\<open>_get_set\<close>.\<close>

definition req_ensure_list :: "string \<Rightarrow> request \<Rightarrow> request" where
  "req_ensure_list key r =
     (if \<not> truthy (req_arg r key)
      then r\<lparr>req_arguments := (req_arguments r)(key \<mapsto> JArr [])\<rparr> else r)"

definition req_add :: "string \<Rightarrow> jsval \<Rightarrow> request \<Rightarrow> request \<times> jsval" where
  "req_add key val r =
     (let r' = r\<lparr>req_arguments := (req_arguments r)(key \<mapsto> val)\<rparr>
      in (r', req_arg r' key))"

definition req_get :: "string \<Rightarrow> request \<Rightarrow> jsval" where
  "req_get key r =
     (let t = req_arg r key
      in if t \<noteq> JNull \<and> t \<noteq> JUndefined then t else JNull)"

definition req_get_set :: "string \<Rightarrow> jsval \<Rightarrow> request \<Rightarrow> request \<times> jsval" where
  "req_get_set key variable r =
     (let r' = (if truthy variable then fst (req_add key variable r) else r)
      in (r', req_get key r'))"

definition entity :: "request \<Rightarrow> string" where
  "entity r = req_entity r"

definition special :: "string \<Rightarrow> jsval \<Rightarrow> request \<Rightarrow> request \<times> jsval" where
  "special name val r = req_get_set name val r"

text \<open>What \<^verbatim>\<open>objectify\<close> returns. Its \<^verbatim>\<open>arguments\<close> is the request's own
  argument object, not a copy: the assignment to
  \<^verbatim>\<open>base['arguments']['assign-to-variable']\<close> writes into the request, so
  \<open>objectify\<close> returns the request after the call, too.\<close>

record request_obj =
  obj_entity :: string
  obj_operation :: string
  obj_arguments :: "string \<rightharpoonup> jsval"

definition objectify :: "request \<Rightarrow> request \<times> request_obj" where
  "objectify r =
     (let r' =
        (if req_entity r = ''individual'' \<and> \<not> set_p (req_individual_id r)
         then r\<lparr>req_arguments := (req_arguments r)
                  (''assign-to-variable'' \<mapsto> snd (value_rv JUndefined (req_individual_id r)))\<rparr>
         else r)
      in (r', \<lparr>obj_entity = req_entity r', obj_operation = req_operation r',
               obj_arguments = req_arguments r'\<rparr>))"

definition individual :: "jsval \<Rightarrow> request \<Rightarrow> request \<times> jsval" where
  "individual ind_id r =
     (let r' =
        (if truthy ind_id
         then fst (req_add ''individual'' ind_id
                (r\<lparr>req_individual_id := fst (value_rv ind_id (req_individual_id r))\<rparr>))
         else r)
      in (r', snd (value_rv JUndefined (req_individual_id r'))))"

definition subject :: "jsval \<Rightarrow> request \<Rightarrow> request \<times> jsval" where
  "subject sub r = req_get_set ''subject'' sub r"

definition object :: "jsval \<Rightarrow> request \<Rightarrow> request \<times> jsval" where
  "object obj r = req_get_set ''object'' obj r"

definition predicate :: "jsval \<Rightarrow> request \<Rightarrow> request \<times> jsval" where
  "predicate pred r = req_get_set ''predicate'' pred r"

definition model :: "jsval \<Rightarrow> request \<Rightarrow> request \<times> jsval" where
  "model m r = req_get_set ''model-id'' m r"

definition fact :: "jsval \<Rightarrow> jsval \<Rightarrow> jsval \<Rightarrow> request \<Rightarrow> request" where
  "fact sub obj pred r = fst (predicate pred (fst (object obj (fst (subject sub r)))))"

text \<open>\<^verbatim>\<open>anchor._arguments[key].push(v)\<close>: a TypeError when the stored value
  is no array (a caller can store a string there with \<^verbatim>\<open>special\<close>).\<close>

definition req_push :: "string \<Rightarrow> jsval \<Rightarrow> request \<Rightarrow> request \<times> (error + unit)" where
  "req_push key v r =
     (case req_arg r key of
        JArr xs \<Rightarrow> (r\<lparr>req_arguments := (req_arguments r)(key \<mapsto> JArr (xs @ [v]))\<rparr>, Inr ())
      | _ \<Rightarrow> (r, Inl TypeError))"

text \<open>\<^verbatim>\<open>v.length\<close> of a truthy value.\<close>

fun js_length :: "jsval \<Rightarrow> jsval" where
  "js_length (JArr xs) = JNum (int (length xs))"
| "js_length (JStr s) = JNum (int (length s))"
| "js_length (JObj kvs) = (case map_of kvs ''length'' of None \<Rightarrow> JUndefined | Some v \<Rightarrow> v)"
| "js_length v = JUndefined"

text \<open>The loop of \<open>add_annotation\<close>: \<^verbatim>\<open>each(vals, function(val){ ... push({'key': key, 'value': val}) })\<close>.\<close>

fun push_annotations :: "jsval \<Rightarrow> jsval list \<Rightarrow> request \<Rightarrow> request \<times> (error + unit)" where
  "push_annotations key [] r = (r, Inr ())"
| "push_annotations key (val # vals) r =
     (case req_push ''values'' (JObj [(''key'', key), (''value'', val)]) r of
        (r', Inl e) \<Rightarrow> (r', Inl e)
      | (r', Inr _) \<Rightarrow> push_annotations key vals r')"

fun js_elems :: "jsval \<Rightarrow> jsval list" where
  "js_elems (JArr xs) = xs"
| "js_elems v = []"

definition add_annotation :: "jsval \<Rightarrow> jsval \<Rightarrow> request \<Rightarrow> request \<times> (error + jsval)" where
  "add_annotation key vals r =
     (let vals1 = (if what_is vals = JStr ''string'' then JArr [vals] else vals)
      in if what_is vals1 \<noteq> JStr ''array'' then (r, Inl Unknown_argument)
         else
           (case push_annotations key (js_elems vals1) (req_ensure_list ''values'' r) of
              (r', Inl e) \<Rightarrow> (r', Inl e)
            | (r', Inr _) \<Rightarrow> (r', Inr (js_length (req_arg r' ''values'')))))"

definition annotations :: "request \<Rightarrow> jsval" where
  "annotations r = req_arg r ''values''"

text \<open>The class-expression library is not part of this repository: \<open>cx\<close> stands
  for \<^verbatim>\<open>new class_expression(class_expr).structure()\<close>, a parameter of every
  operation that builds an expression.\<close>

definition add_class_expression ::
  "(jsval \<Rightarrow> jsval) \<Rightarrow> jsval \<Rightarrow> request \<Rightarrow> request \<times> (error + jsval)" where
  "add_class_expression cx class_expr r =
     (case req_push ''expressions'' (cx class_expr) (req_ensure_list ''expressions'' r) of
        (r', Inl e) \<Rightarrow> (r', Inl e)
      | (r', Inr _) \<Rightarrow> (r', Inr (js_length (req_arg r' ''expressions''))))"

definition expressions :: "request \<Rightarrow> jsval" where
  "expressions r = req_arg r ''expressions''"

section \<open>request_set\<close>

record request_set =
  rs_user_token :: jsval
  rs_model_id :: jsval
  rs_requests :: "request list"
  rs_last_entity_id :: jsval
  rs_intention :: string

text \<open>\<^verbatim>\<open>new request_set(user_token, model_id)\<close>; \<^verbatim>\<open>x || null\<close> keeps a truthy
  \<open>x\<close> and turns every falsy one into \<^verbatim>\<open>null\<close>.\<close>

definition or_null :: "jsval \<Rightarrow> jsval" where
  "or_null x = (if truthy x then x else JNull)"

definition new_request_set :: "jsval \<Rightarrow> jsval \<Rightarrow> request_set" where
  "new_request_set user_token model_id =
     \<lparr>rs_user_token = or_null user_token, rs_model_id = or_null model_id,
      rs_requests = [], rs_last_entity_id = JNull, rs_intention = ''query''\<rparr>"

subsection \<open>Backward lookup\<close>

text \<open>The loop \<^verbatim>\<open>for( var ugh = anchor._requests.length; ugh > 0; ugh-- )\<close> of
  \<open>last_individual_id\<close>, from the value of \<open>ugh\<close> on. The number to skip is a
  natural number; an absent argument is \<^verbatim>\<open>undefined\<close>, for which
  \<^verbatim>\<open>number_to_skip > 0\<close> is false as it is for 0.\<close>

fun last_individual_id_from :: "request list \<Rightarrow> nat \<Rightarrow> nat \<Rightarrow> jsval" where
  "last_individual_id_from reqs 0 number_to_skip = JNull"
| "last_individual_id_from reqs (Suc k) number_to_skip =
     (let req = reqs ! k
      in if entity req = ''individual''
         then (if number_to_skip > 0
               then last_individual_id_from reqs k (number_to_skip - 1)
               else snd (individual JUndefined req))
         else last_individual_id_from reqs k number_to_skip)"

definition last_individual_id :: "nat \<Rightarrow> request_set \<Rightarrow> jsval" where
  "last_individual_id number_to_skip rs =
     last_individual_id_from (rs_requests rs) (length (rs_requests rs)) number_to_skip"

fun last_fact_triple_from :: "request list \<Rightarrow> nat \<Rightarrow> nat \<Rightarrow> jsval" where
  "last_fact_triple_from reqs 0 number_to_skip = JNull"
| "last_fact_triple_from reqs (Suc k) number_to_skip =
     (let req = reqs ! k
      in if entity req = ''edge''
         then (if number_to_skip > 0
               then last_fact_triple_from reqs k (number_to_skip - 1)
               else JArr [snd (subject JUndefined req), snd (object JUndefined req),
                          snd (predicate JUndefined req)])
         else last_fact_triple_from reqs k number_to_skip)"

definition last_fact_triple :: "nat \<Rightarrow> request_set \<Rightarrow> jsval" where
  "last_fact_triple number_to_skip rs =
     last_fact_triple_from (rs_requests rs) (length (rs_requests rs)) number_to_skip"

subsection \<open>Adding requests\<close>

text \<open>\<^verbatim>\<open>add(req, intention)\<close>. The hint is a string or is not given (\<open>None\<close>);
  \<^verbatim>\<open>! intention\<close> holds for no hint and for the empty string.\<close>

definition add :: "request \<Rightarrow> string option \<Rightarrow> request_set \<Rightarrow> request_set" where
  "add req intention rs =
     (let rs1 =
        (if intention = None \<or> intention = Some []
         then rs\<lparr>rs_intention := ''action''\<rparr>
         else if intention = Some ''action''
         then rs\<lparr>rs_intention := the intention\<rparr>
         else if intention = Some ''query''
         then rs
         else rs)
      in rs1\<lparr>rs_requests := rs_requests rs1 @ [req]\<rparr>)"

text \<open>The recurring \<^verbatim>\<open>if( model_id ){ req.model(model_id); }\<close>.\<close>

definition opt_model :: "jsval \<Rightarrow> request \<Rightarrow> request" where
  "opt_model model_id req = (if truthy model_id then fst (model model_id req) else req)"

text \<open>In the operations below every \<open>u\<close> is the uuid drawn by one
  \<^verbatim>\<open>new request(...)\<close> of the call, in the order of the source. An operation
  returns the request set after the call, also when it throws: what was
  appended before the \<^verbatim>\<open>throw\<close> stays in the queue.\<close>

definition add_individual ::
  "(jsval \<Rightarrow> jsval) \<Rightarrow> string \<Rightarrow> jsval \<Rightarrow> jsval \<Rightarrow> request_set \<Rightarrow> request_set \<times> (error + jsval)" where
  "add_individual cx u class_expr model_id rs =
     (if truthy class_expr
      then
        (case add_class_expression cx class_expr
                (opt_model model_id (new_request u ''individual'' ''add'')) of
           (_, Inl e) \<Rightarrow> (rs, Inl e)
         | (ind_req, Inr _) \<Rightarrow>
             (add ind_req (Some ''action'') rs, Inr (snd (individual JUndefined ind_req))))
      else (rs, Inr JNull))"

definition remove_individual :: "string \<Rightarrow> jsval \<Rightarrow> jsval \<Rightarrow> request_set \<Rightarrow> request_set" where
  "remove_individual u individual_id model_id rs =
     (if truthy individual_id
      then add (fst (individual individual_id
                  (opt_model model_id (new_request u ''individual'' ''remove''))))
             (Some ''action'') rs
      else rs)"

definition op_type_to_individual ::
  "(jsval \<Rightarrow> jsval) \<Rightarrow> string \<Rightarrow> string \<Rightarrow> jsval \<Rightarrow> jsval \<Rightarrow> jsval \<Rightarrow> request_set
     \<Rightarrow> request_set \<times> (error + unit)" where
  "op_type_to_individual cx u op class_expr individual_id model_id rs =
     (if op \<noteq> [] \<and> truthy class_expr \<and> truthy individual_id
      then
        (if op \<noteq> ''add'' \<and> op \<noteq> ''remove''
         then (rs, Inl Unknown_type_operation)
         else
           (case add_class_expression cx class_expr
                   (opt_model model_id
                      (fst (individual individual_id
                              (new_request u ''individual'' (op @ ''-type''))))) of
              (_, Inl e) \<Rightarrow> (rs, Inl e)
            | (type_req, Inr _) \<Rightarrow> (add type_req (Some ''action'') rs, Inr ())))
      else (rs, Inr ()))"

definition add_type_to_individual ::
  "(jsval \<Rightarrow> jsval) \<Rightarrow> string \<Rightarrow> jsval \<Rightarrow> jsval \<Rightarrow> jsval \<Rightarrow> request_set
     \<Rightarrow> request_set \<times> (error + unit)" where
  "add_type_to_individual cx u class_expr individual_id model_id rs =
     op_type_to_individual cx u ''add'' class_expr individual_id model_id rs"

definition remove_type_from_individual ::
  "(jsval \<Rightarrow> jsval) \<Rightarrow> string \<Rightarrow> jsval \<Rightarrow> jsval \<Rightarrow> jsval \<Rightarrow> request_set
     \<Rightarrow> request_set \<times> (error + unit)" where
  "remove_type_from_individual cx u class_expr individual_id model_id rs =
     op_type_to_individual cx u ''remove'' class_expr individual_id model_id rs"

text \<open>\<^verbatim>\<open>_ensure_fact\<close>: \<open>Inl\<close> is the throw.\<close>

definition ensure_fact :: "jsval \<Rightarrow> error + unit" where
  "ensure_fact triple =
     (if truthy triple \<and> truthy (js_index triple 0) \<and> truthy (js_index triple 1)
         \<and> truthy (js_index triple 2)
      then Inr ()
      else Inl Triple_not_proper_fact)"

definition add_fact ::
  "string \<Rightarrow> jsval \<Rightarrow> jsval \<Rightarrow> request_set \<Rightarrow> request_set \<times> (error + jsval)" where
  "add_fact u triple model_id rs =
     (case ensure_fact triple of
        Inl e \<Rightarrow> (rs, Inl e)
      | Inr _ \<Rightarrow>
          (add (fact (js_index triple 0) (js_index triple 1) (js_index triple 2)
                  (opt_model model_id (new_request u ''edge'' ''add'')))
             (Some ''action'') rs,
           Inr triple))"

definition remove_fact ::
  "string \<Rightarrow> jsval \<Rightarrow> jsval \<Rightarrow> request_set \<Rightarrow> request_set \<times> (error + unit)" where
  "remove_fact u triple model_id rs =
     (case ensure_fact triple of
        Inl e \<Rightarrow> (rs, Inl e)
      | Inr _ \<Rightarrow>
          (add (fact (js_index triple 0) (js_index triple 1) (js_index triple 2)
                  (opt_model model_id (new_request u ''edge'' ''remove'')))
             (Some ''action'') rs,
           Inr ()))"

subsection \<open>Evidence\<close>

definition add_evidence ::
  "(jsval \<Rightarrow> jsval) \<Rightarrow> string \<Rightarrow> string \<Rightarrow> string \<Rightarrow> jsval \<Rightarrow> jsval \<Rightarrow> jsval \<Rightarrow> jsval
     \<Rightarrow> request_set \<Rightarrow> request_set \<times> (error + unit)" where
  "add_evidence cx u1 u2 u3 evidence_id source_ids target_identifier model_id rs =
     (if truthy evidence_id \<and> truthy source_ids
      then
        (case add_class_expression cx evidence_id
                (opt_model model_id (new_request u1 ''individual'' ''add'')) of
           (_, Inl e) \<Rightarrow> (rs, Inl e)
         | (ev_ind_req, Inr _) \<Rightarrow>
             (let rs1 = add ev_ind_req (Some ''action'') rs
              in case add_annotation (JStr ''source'') source_ids
                        (fst (individual (snd (individual JUndefined ev_ind_req))
                                (opt_model model_id
                                   (new_request u2 ''individual'' ''add-annotation'')))) of
                   (_, Inl e) \<Rightarrow> (rs1, Inl e)
                 | (ev_ind_ann_req, Inr _) \<Rightarrow>
                     (let rs2 = add ev_ind_ann_req (Some ''action'') rs1
                      in if \<not> truthy target_identifier
                         then (rs2, Inl No_target_for_evidence)
                         else if what_is target_identifier = JStr ''string''
                         then
                           (case add_annotation (JStr ''evidence'')
                                   (snd (individual JUndefined ev_ind_req))
                                   (fst (individual target_identifier
                                           (opt_model model_id
                                              (new_request u3 ''individual''
                                                 ''add-annotation'')))) of
                              (_, Inl e) \<Rightarrow> (rs2, Inl e)
                            | (ind_ann_req, Inr _) \<Rightarrow>
                                (add ind_ann_req (Some ''action'') rs2, Inr ()))
                         else
                           (case ensure_fact target_identifier of
                              Inl e \<Rightarrow> (rs2, Inl e)
                            | Inr _ \<Rightarrow>
                                (case add_annotation (JStr ''evidence'')
                                        (snd (individual JUndefined ev_ind_req))
                                        (fact (js_index target_identifier 0)
                                           (js_index target_identifier 1)
                                           (js_index target_identifier 2)
                                           (opt_model model_id
                                              (new_request u3 ''edge''
                                                 ''add-annotation''))) of
                                   (_, Inl e) \<Rightarrow> (rs2, Inl e)
                                 | (ed_ann_req, Inr _) \<Rightarrow>
                                     (add ed_ann_req (Some ''action'') rs2, Inr ()))))))
      else (rs, Inr ()))"

definition remove_evidence :: "string \<Rightarrow> jsval \<Rightarrow> jsval \<Rightarrow> request_set \<Rightarrow> request_set" where
  "remove_evidence u evidence_individual_id model_id rs =
     (if truthy evidence_individual_id
      then remove_individual u evidence_individual_id model_id rs
      else rs)"

definition add_evidence_to_last_individual ::
  "(jsval \<Rightarrow> jsval) \<Rightarrow> string \<Rightarrow> string \<Rightarrow> string \<Rightarrow> jsval \<Rightarrow> jsval \<Rightarrow> jsval
     \<Rightarrow> request_set \<Rightarrow> request_set \<times> (error + unit)" where
  "add_evidence_to_last_individual cx u1 u2 u3 evidence_id source_ids model_id rs =
     (let tmp_indv = last_individual_id 0 rs
      in if truthy tmp_indv
         then add_evidence cx u1 u2 u3 evidence_id source_ids tmp_indv model_id rs
         else (rs, Inr ()))"

definition add_evidence_to_last_fact ::
  "(jsval \<Rightarrow> jsval) \<Rightarrow> string \<Rightarrow> string \<Rightarrow> string \<Rightarrow> jsval \<Rightarrow> jsval \<Rightarrow> jsval
     \<Rightarrow> request_set \<Rightarrow> request_set \<times> (error + unit)" where
  "add_evidence_to_last_fact cx u1 u2 u3 evidence_id source_ids model_id rs =
     (let tmp_triple = last_fact_triple 0 rs
      in if truthy tmp_triple
         then add_evidence cx u1 u2 u3 evidence_id source_ids tmp_triple model_id rs
         else (rs, Inr ()))"

subsection \<open>Annotations\<close>

text \<open>The middle of \<^verbatim>\<open>_op_annotation_to_target\<close>: the arguments that identify
  the target are written into the new request.\<close>

definition identify_target :: "string \<Rightarrow> jsval \<Rightarrow> request \<Rightarrow> error + request" where
  "identify_target target target_identifier req =
     (if target = ''model'' then Inr req
      else if target = ''individual'' then Inr (fst (individual target_identifier req))
      else if target = ''edge''
      then (case ensure_fact target_identifier of
              Inl e \<Rightarrow> Inl e
            | Inr _ \<Rightarrow>
                Inr (fact (js_index target_identifier 0) (js_index target_identifier 1)
                       (js_index target_identifier 2) req))
      else Inl Unknown_annotation_target)"

definition op_annotation_to_target ::
  "string \<Rightarrow> string \<Rightarrow> string \<Rightarrow> jsval \<Rightarrow> jsval \<Rightarrow> jsval \<Rightarrow> jsval \<Rightarrow> request_set
     \<Rightarrow> request_set \<times> (error + unit)" where
  "op_annotation_to_target u op target target_identifier key val model_id rs =
     (if op = ''add'' \<or> op = ''remove''
      then
        (case identify_target target target_identifier
                (opt_model model_id (new_request u target (op @ ''-annotation''))) of
           Inl e \<Rightarrow> (rs, Inl e)
         | Inr req \<Rightarrow>
             (if truthy key \<and> truthy val
              then (case add_annotation key val req of
                      (_, Inl e) \<Rightarrow> (rs, Inl e)
                    | (req', Inr _) \<Rightarrow> (add req' (Some ''action'') rs, Inr ()))
              else (rs, Inr ())))
      else (rs, Inl Unknown_annotation_operation))"

definition add_annotation_to_model ::
  "string \<Rightarrow> jsval \<Rightarrow> jsval \<Rightarrow> jsval \<Rightarrow> request_set \<Rightarrow> request_set \<times> (error + unit)" where
  "add_annotation_to_model u key val model_id rs =
     op_annotation_to_target u ''add'' ''model'' JNull key val model_id rs"

definition remove_annotation_from_model ::
  "string \<Rightarrow> jsval \<Rightarrow> jsval \<Rightarrow> jsval \<Rightarrow> request_set \<Rightarrow> request_set \<times> (error + unit)" where
  "remove_annotation_from_model u key val model_id rs =
     op_annotation_to_target u ''remove'' ''model'' JNull key val model_id rs"

definition add_annotation_to_individual ::
  "string \<Rightarrow> jsval \<Rightarrow> jsval \<Rightarrow> jsval \<Rightarrow> jsval \<Rightarrow> request_set
     \<Rightarrow> request_set \<times> (error + unit)" where
  "add_annotation_to_individual u key val individual_id model_id rs =
     op_annotation_to_target u ''add'' ''individual'' individual_id key val model_id rs"

definition remove_annotation_from_individual ::
  "string \<Rightarrow> jsval \<Rightarrow> jsval \<Rightarrow> jsval \<Rightarrow> jsval \<Rightarrow> request_set
     \<Rightarrow> request_set \<times> (error + unit)" where
  "remove_annotation_from_individual u key val individual_id model_id rs =
     op_annotation_to_target u ''remove'' ''individual'' individual_id key val model_id rs"

definition add_annotation_to_fact ::
  "string \<Rightarrow> jsval \<Rightarrow> jsval \<Rightarrow> jsval \<Rightarrow> jsval \<Rightarrow> request_set
     \<Rightarrow> request_set \<times> (error + unit)" where
  "add_annotation_to_fact u key val triple model_id rs =
     (case ensure_fact triple of
        Inl e \<Rightarrow> (rs, Inl e)
      | Inr _ \<Rightarrow> op_annotation_to_target u ''add'' ''edge'' triple key val model_id rs)"

definition remove_annotation_from_fact ::
  "string \<Rightarrow> jsval \<Rightarrow> jsval \<Rightarrow> jsval \<Rightarrow> jsval \<Rightarrow> request_set
     \<Rightarrow> request_set \<times> (error + unit)" where
  "remove_annotation_from_fact u key val triple model_id rs =
     (case ensure_fact triple of
        Inl e \<Rightarrow> (rs, Inl e)
      | Inr _ \<Rightarrow> op_annotation_to_target u ''remove'' ''edge'' triple key val model_id rs)"

subsection \<open>Whole-model operations\<close>

definition undo_last_model_batch :: "string \<Rightarrow> jsval \<Rightarrow> request_set \<Rightarrow> request_set" where
  "undo_last_model_batch u model_id rs =
     add (opt_model model_id (new_request u ''model'' ''undo'')) (Some ''action'') rs"

definition redo_last_model_batch :: "string \<Rightarrow> jsval \<Rightarrow> request_set \<Rightarrow> request_set" where
  "redo_last_model_batch u model_id rs =
     add (opt_model model_id (new_request u ''model'' ''redo'')) (Some ''action'') rs"

definition get_meta :: "string \<Rightarrow> request_set \<Rightarrow> request_set" where
  "get_meta u rs = add (new_request u ''meta'' ''get'') (Some ''query'') rs"

definition get_model :: "string \<Rightarrow> jsval \<Rightarrow> request_set \<Rightarrow> request_set" where
  "get_model u model_id rs =
     add (opt_model model_id (new_request u ''model'' ''get'')) (Some ''query'') rs"

definition get_undo_redo :: "string \<Rightarrow> jsval \<Rightarrow> request_set \<Rightarrow> request_set" where
  "get_undo_redo u model_id rs =
     add (opt_model model_id (new_request u ''model'' ''get-undo-redo'')) (Some ''query'') rs"

text \<open>\<^verbatim>\<open>argument_hash['class-id']\<close>: a property of a plain object, and
  \<^verbatim>\<open>undefined\<close> on the other truthy values.\<close>

fun js_prop :: "jsval \<Rightarrow> string \<Rightarrow> jsval" where
  "js_prop (JObj kvs) k = (case map_of kvs k of None \<Rightarrow> JUndefined | Some v \<Rightarrow> v)"
| "js_prop v k = JUndefined"

definition add_model :: "string \<Rightarrow> jsval \<Rightarrow> request_set \<Rightarrow> request_set" where
  "add_model u argument_hash rs =
     (let cls_id = (if truthy argument_hash \<and> truthy (js_prop argument_hash ''class-id'')
                    then js_prop argument_hash ''class-id'' else JNull);
          tax_id = (if truthy argument_hash \<and> truthy (js_prop argument_hash ''taxon-id'')
                    then js_prop argument_hash ''taxon-id'' else JNull);
          model_req = new_request u ''model'' ''add'';
          model_req1 = (if truthy cls_id then fst (special ''class-id'' cls_id model_req)
                        else model_req);
          model_req2 = (if truthy tax_id then fst (special ''taxon-id'' tax_id model_req1)
                        else model_req1)
      in add model_req2 (Some ''action'') rs)"

definition store_model :: "string \<Rightarrow> jsval \<Rightarrow> request_set \<Rightarrow> request_set" where
  "store_model u model_id rs =
     add (opt_model model_id (new_request u ''model'' ''store'')) (Some ''query'') rs"

subsection \<open>Serialization\<close>

record structure_obj =
  so_token :: jsval
  so_intention :: string
  so_requests :: "request_obj list"

text \<open>The body of the loop of \<open>structure\<close>, for one request.\<close>

definition structure_req :: "jsval \<Rightarrow> request \<Rightarrow> request \<times> request_obj" where
  "structure_req set_model_id req =
     objectify
       (if \<not> truthy (snd (model JUndefined req)) \<and> truthy set_model_id
        then fst (model set_model_id req) else req)"

text \<open>\<open>structure\<close> writes into the queued requests (the model id, and
  \<open>objectify\<close>'s variable), so it returns the request set after the call,
  too.\<close>

definition structure_rs :: "request_set \<Rightarrow> request_set \<times> structure_obj" where
  "structure_rs rs =
     (let res = map (structure_req (rs_model_id rs)) (rs_requests rs)
      in (rs\<lparr>rs_requests := map fst res\<rparr>,
          \<lparr>so_token = rs_user_token rs, so_intention = rs_intention rs,
           so_requests = map snd res\<rparr>))"

text \<open>\<^verbatim>\<open>encodeURIComponent\<close> and \<^verbatim>\<open>decodeURIComponent\<close> of the JavaScript runtime, on
  strings as the bytes of their UTF-8 text. The characters that are not
  escaped are the letters, the digits and \<^verbatim>\<open>- _ . ! ~ * ' ( )\<close>; every other
  byte becomes \<^verbatim>\<open>%\<close> and two upper-case hexadecimal digits. Decoding takes every
  escape back, with digits of either case, and fails (\<open>None\<close>, the URIError) on
  a \<^verbatim>\<open>%\<close> that two hexadecimal digits do not follow.\<close>

definition unescaped :: "char \<Rightarrow> bool" where
  "unescaped c \<longleftrightarrow>
     c \<in> set ''ABCDEFGHIJKLMNOPQRSTUVWXYZabcdefghijklmnopqrstuvwxyz0123456789-_.!~*()''
     \<or> c = CHR 0x27"

definition hex_digit :: "nat \<Rightarrow> char" where
  "hex_digit n = ''0123456789ABCDEF'' ! n"


definition escape :: "char \<Rightarrow> string" where
  "escape c =
     (if unescaped c then [c]
      else [CHR ''%'', hex_digit (of_char c div 16), hex_digit (of_char c mod 16)])"

definition encodeURIComponent :: "string \<Rightarrow> string" where
  "encodeURIComponent s = concat (map escape s)"


text \<open>What \<open>callable\<close> returns: \<^verbatim>\<open>requests\<close> is a string there.
  \<^verbatim>\<open>JSON.stringify\<close> belongs to the JavaScript runtime, and what it prints for
  the structure of a class expression to the class-expression library; it is
  the parameter \<open>stringify\<close>.\<close>

record callable_obj =
  co_token :: jsval
  co_intention :: string
  co_requests :: string

definition callable ::
  "(request_obj list \<Rightarrow> string) \<Rightarrow> request_set \<Rightarrow> request_set \<times> callable_obj" where
  "callable stringify rs =
     (let (rs', rset) = structure_rs rs;
          reqs = so_requests rset;
          str = stringify reqs;
          enc = encodeURIComponent str
      in (rs', \<lparr>co_token = so_token rset, co_intention = so_intention rset,
                co_requests = enc\<rparr>))"

subsection \<open>Sequences of calls\<close>

text \<open>\<open>builds cx rs rs'\<close>: one call of a method that builds the batch takes the
  request set \<open>rs\<close> to \<open>rs'\<close>, whether the call returns or throws. There is one
  rule for each method, for all its arguments and all the uuids it draws; the
  last rule is for the two lookups, which change nothing.\<close>

inductive builds :: "(jsval \<Rightarrow> jsval) \<Rightarrow> request_set \<Rightarrow> request_set \<Rightarrow> bool"
  for cx :: "jsval \<Rightarrow> jsval" where
    b_add: "builds cx rs (add req h rs)"
  | b_add_individual: "builds cx rs (fst (add_individual cx u ce m rs))"
  | b_remove_individual: "builds cx rs (remove_individual u i m rs)"
  | b_op_type_to_individual: "builds cx rs (fst (op_type_to_individual cx u op ce i m rs))"
  | b_add_type_to_individual: "builds cx rs (fst (add_type_to_individual cx u ce i m rs))"
  | b_remove_type_from_individual:
      "builds cx rs (fst (remove_type_from_individual cx u ce i m rs))"
  | b_add_fact: "builds cx rs (fst (add_fact u t m rs))"
  | b_remove_fact: "builds cx rs (fst (remove_fact u t m rs))"
  | b_add_evidence: "builds cx rs (fst (add_evidence cx u1 u2 u3 e s t m rs))"
  | b_remove_evidence: "builds cx rs (remove_evidence u i m rs)"
  | b_add_evidence_to_last_individual:
      "builds cx rs (fst (add_evidence_to_last_individual cx u1 u2 u3 e s m rs))"
  | b_add_evidence_to_last_fact:
      "builds cx rs (fst (add_evidence_to_last_fact cx u1 u2 u3 e s m rs))"
  | b_op_annotation_to_target:
      "builds cx rs (fst (op_annotation_to_target u op tg ti k v m rs))"
  | b_add_annotation_to_model: "builds cx rs (fst (add_annotation_to_model u k v m rs))"
  | b_remove_annotation_from_model:
      "builds cx rs (fst (remove_annotation_from_model u k v m rs))"
  | b_add_annotation_to_individual:
      "builds cx rs (fst (add_annotation_to_individual u k v i m rs))"
  | b_remove_annotation_from_individual:
      "builds cx rs (fst (remove_annotation_from_individual u k v i m rs))"
  | b_add_annotation_to_fact: "builds cx rs (fst (add_annotation_to_fact u k v t m rs))"
  | b_remove_annotation_from_fact:
      "builds cx rs (fst (remove_annotation_from_fact u k v t m rs))"
  | b_undo_last_model_batch: "builds cx rs (undo_last_model_batch u m rs)"
  | b_redo_last_model_batch: "builds cx rs (redo_last_model_batch u m rs)"
  | b_get_meta: "builds cx rs (get_meta u rs)"
  | b_get_model: "builds cx rs (get_model u m rs)"
  | b_get_undo_redo: "builds cx rs (get_undo_redo u m rs)"
  | b_add_model: "builds cx rs (add_model u h rs)"
  | b_store_model: "builds cx rs (store_model u m rs)"
  | b_lookup: "builds cx rs rs"

text \<open>\<open>calls cx rs rs'\<close>: a sequence of method calls, the builders and the two
  serializers in any order, takes \<open>rs\<close> to \<open>rs'\<close>.\<close>

inductive calls :: "(jsval \<Rightarrow> jsval) \<Rightarrow> request_set \<Rightarrow> request_set \<Rightarrow> bool"
  for cx :: "jsval \<Rightarrow> jsval" where
    c_none: "calls cx rs rs"
  | c_builds: "calls cx rs rs1 \<Longrightarrow> builds cx rs1 rs2 \<Longrightarrow> calls cx rs rs2"
  | c_structure: "calls cx rs rs1 \<Longrightarrow> calls cx rs (fst (structure_rs rs1))"
  | c_callable: "calls cx rs rs1 \<Longrightarrow> calls cx rs (fst (callable stringify rs1))"

text \<open>The structure that the class-expression library gives for a class id, as
  a concrete \<open>cx\<close> for the examples.\<close>

definition class_structure :: "jsval \<Rightarrow> jsval" where
  "class_structure class_expr = JObj [(''type'', JStr ''class''), (''id'', class_expr)]"

text \<open>\<open>extends rs rs'\<close>: \<open>rs'\<close> is \<open>rs\<close> with requests appended at the end of the
  queue and the intention kept or raised to \<^verbatim>\<open>action\<close>; token and default model
  id are the same.\<close>

definition extends :: "request_set \<Rightarrow> request_set \<Rightarrow> bool" where
  "extends rs rs' \<longleftrightarrow>
     (\<exists>new. rs_requests rs' = rs_requests rs @ new)
     \<and> (rs_intention rs' = rs_intention rs \<or> rs_intention rs' = ''action'')
     \<and> rs_user_token rs' = rs_user_token rs \<and> rs_model_id rs' = rs_model_id rs"

section \<open>Facts about requests and the queue\<close>

lemma add_requests: "rs_requests (add req h rs) = rs_requests rs @ [req]"
  by (simp add: add_def Let_def)

lemma add_intention:
  "rs_intention (add req h rs) =
     (if h = None \<or> h = Some [] \<or> h = Some ''action'' then ''action'' else rs_intention rs)"
  by (simp add: add_def Let_def)

lemma add_frame:
  "rs_user_token (add req h rs) = rs_user_token rs"
  "rs_model_id (add req h rs) = rs_model_id rs"
  "rs_last_entity_id (add req h rs) = rs_last_entity_id rs"
  by (simp_all add: add_def Let_def)



lemma opt_model_fields:
  "req_entity (opt_model m r) = req_entity r"
  "req_operation (opt_model m r) = req_operation r"
  "req_individual_id (opt_model m r) = req_individual_id r"
  "req_arguments (opt_model m r) =
     (if truthy m then (req_arguments r)(''model-id'' \<mapsto> m) else req_arguments r)"
  by (simp_all add: opt_model_def model_def req_get_set_def req_add_def Let_def)

lemma individual_fields:
  "req_entity (fst (individual i r)) = req_entity r"
  "req_operation (fst (individual i r)) = req_operation r"
  "req_individual_id (fst (individual i r)) =
     (if truthy i then \<lparr>rv_var = i, rv_use_var_p = True\<rparr> else req_individual_id r)"
  "req_arguments (fst (individual i r)) =
     (if truthy i then (req_arguments r)(''individual'' \<mapsto> i) else req_arguments r)"
  "snd (individual i r) = (if truthy i then i else rv_var (req_individual_id r))"
  by (simp_all add: individual_def value_rv_def req_add_def Let_def)

lemma fact_fields:
  "req_entity (fact a b c r) = req_entity r"
  "req_operation (fact a b c r) = req_operation r"
  "req_individual_id (fact a b c r) = req_individual_id r"
  by (simp_all add: fact_def subject_def object_def predicate_def req_get_set_def
      req_add_def Let_def)

lemma fact_arguments:
  "truthy a \<Longrightarrow> truthy b \<Longrightarrow> truthy c \<Longrightarrow>
   req_arguments (fact a b c r) =
     (req_arguments r)(''subject'' \<mapsto> a, ''object'' \<mapsto> b, ''predicate'' \<mapsto> c)"
  by (simp add: fact_def subject_def object_def predicate_def req_get_set_def
      req_add_def Let_def)

lemma new_request_fields:
  "req_entity (new_request u e op) = e"
  "req_operation (new_request u e op) = op"
  "req_individual_id (new_request u e op) = \<lparr>rv_var = JStr u, rv_use_var_p = False\<rparr>"
  "req_arguments (new_request u e op) = Map.empty"
  by (simp_all add: new_request_def new_request_variable_def value_rv_def)

lemma push_annotations_array:
  "req_arguments r ''values'' = Some (JArr xs) \<Longrightarrow>
   push_annotations key vals r =
     (r\<lparr>req_arguments := (req_arguments r)
         (''values'' \<mapsto> JArr (xs @ map (\<lambda>v. JObj [(''key'', key), (''value'', v)]) vals))\<rparr>,
      Inr ())"
proof (induction vals arbitrary: r xs)
  case Nil
  then have "(req_arguments r)(''values'' \<mapsto> JArr xs) = req_arguments r"
    by (simp add: map_upd_triv)
  then show ?case by simp
next
  case (Cons v vals)
  define r1 where
    "r1 = r\<lparr>req_arguments := (req_arguments r)
            (''values'' \<mapsto> JArr (xs @ [JObj [(''key'', key), (''value'', v)]]))\<rparr>"
  have step: "req_push ''values'' (JObj [(''key'', key), (''value'', v)]) r = (r1, Inr ())"
    using Cons.prems by (simp add: req_push_def req_arg_def r1_def)
  have stored: "req_arguments r1 ''values''
      = Some (JArr (xs @ [JObj [(''key'', key), (''value'', v)]]))"
    by (simp add: r1_def)
  have "push_annotations key (v # vals) r = push_annotations key vals r1"
    using step by simp
  also have "\<dots> = (r1\<lparr>req_arguments := (req_arguments r1)
         (''values'' \<mapsto> JArr ((xs @ [JObj [(''key'', key), (''value'', v)]])
             @ map (\<lambda>v. JObj [(''key'', key), (''value'', v)]) vals))\<rparr>, Inr ())"
    by (rule Cons.IH [OF stored])
  also have "\<dots> = (r\<lparr>req_arguments := (req_arguments r)
         (''values'' \<mapsto> JArr (xs @ map (\<lambda>v. JObj [(''key'', key), (''value'', v)]) (v # vals)))\<rparr>,
      Inr ())"
    by (simp add: r1_def)
  finally show ?case .
qed

lemma add_annotation_fresh:
  "req_arguments r ''values'' = None \<Longrightarrow>
   add_annotation key vals r =
     (if what_is vals = JStr ''string''
      then (r\<lparr>req_arguments := (req_arguments r)
               (''values'' \<mapsto> JArr [JObj [(''key'', key), (''value'', vals)]])\<rparr>,
            Inr (JNum 1))
      else if what_is vals = JStr ''array''
      then (r\<lparr>req_arguments := (req_arguments r)
               (''values'' \<mapsto> JArr (map (\<lambda>v. JObj [(''key'', key), (''value'', v)])
                                    (js_elems vals)))\<rparr>,
            Inr (JNum (int (length (js_elems vals)))))
      else (r, Inl Unknown_argument))"
proof -
  assume fresh: "req_arguments r ''values'' = None"
  define r0 where "r0 = r\<lparr>req_arguments := (req_arguments r)(''values'' \<mapsto> JArr [])\<rparr>"
  have ens: "req_ensure_list ''values'' r = r0"
    using fresh by (simp add: req_ensure_list_def req_arg_def r0_def)
  have push: "push_annotations key vs r0 =
     (r\<lparr>req_arguments := (req_arguments r)
         (''values'' \<mapsto> JArr (map (\<lambda>v. JObj [(''key'', key), (''value'', v)]) vs))\<rparr>, Inr ())"
    for vs
    using push_annotations_array [of r0 "[]" key vs] by (simp add: r0_def)
  show ?thesis
    by (simp add: add_annotation_def ens push req_arg_def Let_def
        del: push_annotations.simps)
qed

lemma add_class_expression_fresh:
  "req_arguments r ''expressions'' = None \<Longrightarrow>
   add_class_expression cx ce r =
     (r\<lparr>req_arguments := (req_arguments r)(''expressions'' \<mapsto> JArr [cx ce])\<rparr>,
      Inr (JNum 1))"
  by (simp add: add_class_expression_def req_ensure_list_def req_arg_def req_push_def)


lemma other_arguments:
  "k \<noteq> ''model-id'' \<Longrightarrow> req_arguments (opt_model m r) k = req_arguments r k"
  "k \<noteq> ''individual'' \<Longrightarrow> req_arguments (fst (individual i r)) k = req_arguments r k"
  "k \<noteq> ''subject'' \<Longrightarrow> k \<noteq> ''object'' \<Longrightarrow> k \<noteq> ''predicate'' \<Longrightarrow>
     req_arguments (fact a b c r) k = req_arguments r k"
  "req_arguments (new_request u e op) k = None"
  by (simp_all add: opt_model_def model_def individual_def fact_def subject_def object_def
      predicate_def req_get_set_def req_add_def new_request_def Let_def)

lemma ensure_fact_cases: "ensure_fact t = Inr () \<or> ensure_fact t = Inl Triple_not_proper_fact"
  by (simp add: ensure_fact_def)

lemmas req_fields = opt_model_fields individual_fields fact_fields new_request_fields

lemma extends_refl: "extends rs rs"
  by (simp add: extends_def)

lemma extends_add: "extends rs rs1 \<Longrightarrow> extends rs (add req h rs1)"
  by (auto simp: extends_def add_requests add_intention add_frame)

lemma add_evidence_first:
  "add_class_expression cx e (opt_model m (new_request u1 ''individual'' ''add'')) =
     ((opt_model m (new_request u1 ''individual'' ''add''))
        \<lparr>req_arguments := (req_arguments (opt_model m (new_request u1 ''individual'' ''add'')))
           (''expressions'' \<mapsto> JArr [cx e])\<rparr>, Inr (JNum 1))"
  by (rule add_class_expression_fresh) (simp add: other_arguments)

lemma add_annotation_new:
  assumes "req_arguments r ''values'' = None"
  shows "(what_is vals \<noteq> JStr ''string'' \<and> what_is vals \<noteq> JStr ''array''
          \<longrightarrow> add_annotation key vals r = (r, Inl Unknown_argument))
       \<and> (what_is vals = JStr ''string'' \<or> what_is vals = JStr ''array''
          \<longrightarrow> (\<exists>vs. add_annotation key vals r =
                   (r\<lparr>req_arguments := (req_arguments r)(''values'' \<mapsto> JArr vs)\<rparr>,
                    Inr (JNum (int (length vs))))))"
proof (intro conjI impI)
  assume "what_is vals \<noteq> JStr ''string'' \<and> what_is vals \<noteq> JStr ''array''"
  then show "add_annotation key vals r = (r, Inl Unknown_argument)"
    using assms by (simp add: add_annotation_fresh)
next
  assume "what_is vals = JStr ''string'' \<or> what_is vals = JStr ''array''"
  then show "\<exists>vs. add_annotation key vals r =
       (r\<lparr>req_arguments := (req_arguments r)(''values'' \<mapsto> JArr vs)\<rparr>,
        Inr (JNum (int (length vs))))"
  proof
    assume "what_is vals = JStr ''string''"
    then have "add_annotation key vals r =
       (r\<lparr>req_arguments := (req_arguments r)
            (''values'' \<mapsto> JArr [JObj [(''key'', key), (''value'', vals)]])\<rparr>,
        Inr (JNum (int (length [JObj [(''key'', key), (''value'', vals)]]))))"
      using assms by (simp add: add_annotation_fresh)
    then show ?thesis by (rule exI)
  next
    assume "what_is vals = JStr ''array''"
    then have "add_annotation key vals r =
       (r\<lparr>req_arguments := (req_arguments r)
            (''values'' \<mapsto> JArr (map (\<lambda>v. JObj [(''key'', key), (''value'', v)])
                                    (js_elems vals)))\<rparr>,
        Inr (JNum (int (length (map (\<lambda>v. JObj [(''key'', key), (''value'', v)])
                                    (js_elems vals))))))"
      using assms by (simp add: add_annotation_fresh)
    then show ?thesis by (rule exI)
  qed
qed

lemma add_evidence_second:
  "\<exists>x. add_annotation (JStr ''source'') source_ids
          (fst (individual (JStr u1)
             (opt_model model_id (new_request u2 ''individual'' ''add-annotation'')))) =
        (if what_is source_ids = JStr ''string'' \<or> what_is source_ids = JStr ''array''
         then ((fst (individual (JStr u1)
                  (opt_model model_id (new_request u2 ''individual'' ''add-annotation''))))
                 \<lparr>req_arguments :=
                    (req_arguments (fst (individual (JStr u1)
                       (opt_model model_id (new_request u2 ''individual'' ''add-annotation'')))))
                    (''values'' \<mapsto> JArr x)\<rparr>, Inr (JNum (int (length x))))
         else (fst (individual (JStr u1)
                  (opt_model model_id (new_request u2 ''individual'' ''add-annotation''))),
               Inl Unknown_argument))"
proof -
  let ?r2 = "fst (individual (JStr u1)
                (opt_model model_id (new_request u2 ''individual'' ''add-annotation'')))"
  have "req_arguments ?r2 ''values'' = None"
    by (simp add: other_arguments)
  from add_annotation_new [OF this, of source_ids "JStr ''source''"]
  show ?thesis by (cases "what_is source_ids = JStr ''string'' \<or> what_is source_ids = JStr ''array''") auto
qed

lemma add_evidence_third:
  assumes "req_arguments r ''values'' = None"
  shows "add_annotation (JStr ''evidence'') (JStr u1) r =
     (r\<lparr>req_arguments := (req_arguments r)
         (''values'' \<mapsto> JArr [JObj [(''key'', JStr ''evidence''), (''value'', JStr u1)]])\<rparr>,
      Inr (JNum 1))"
  using assms by (simp add: add_annotation_fresh)

text \<open>The outcome of add_evidence, by cases.\<close>

lemma add_evidence_outcome:
  assumes e: "truthy evidence_id" and s: "truthy source_ids"
  shows "\<exists>a b c.
     req_entity a = ''individual'' \<and> req_operation a = ''add''
   \<and> snd (individual JUndefined a) = JStr u1
   \<and> req_entity b = ''individual'' \<and> req_operation b = ''add-annotation''
   \<and> req_operation c = ''add-annotation''
   \<and> (if what_is target_identifier = JStr ''string''
       then req_entity c = ''individual''
            \<and> (truthy target_identifier
                 \<longrightarrow> req_arguments c ''individual'' = Some target_identifier
                   \<and> snd (individual JUndefined c) = target_identifier)
       else req_entity c = ''edge'')
   \<and> req_arguments c ''values''
        = Some (JArr [JObj [(''key'', JStr ''evidence''), (''value'', JStr u1)]])
   \<and> (\<forall>rs. add_evidence cx u1 u2 u3 evidence_id source_ids target_identifier model_id rs =
       (if what_is source_ids \<noteq> JStr ''string'' \<and> what_is source_ids \<noteq> JStr ''array''
        then (add a (Some ''action'') rs, Inl Unknown_argument)
        else if \<not> truthy target_identifier
        then (add b (Some ''action'') (add a (Some ''action'') rs), Inl No_target_for_evidence)
        else if what_is target_identifier \<noteq> JStr ''string''
                \<and> ensure_fact target_identifier \<noteq> Inr ()
        then (add b (Some ''action'') (add a (Some ''action'') rs), Inl Triple_not_proper_fact)
        else (add c (Some ''action'') (add b (Some ''action'') (add a (Some ''action'') rs)),
              Inr ())))"
proof -
  let ?a0 = "opt_model model_id (new_request u1 ''individual'' ''add'')"
  let ?a = "?a0\<lparr>req_arguments := (req_arguments ?a0)(''expressions'' \<mapsto> JArr [cx evidence_id])\<rparr>"
  let ?b0 = "fst (individual (JStr u1)
                (opt_model model_id (new_request u2 ''individual'' ''add-annotation'')))"
  let ?ci = "fst (individual target_identifier
                (opt_model model_id (new_request u3 ''individual'' ''add-annotation'')))"
  let ?ce = "fact (js_index target_identifier 0) (js_index target_identifier (Suc 0))
               (js_index target_identifier 2)
               (opt_model model_id (new_request u3 ''edge'' ''add-annotation''))"
  let ?c0 = "if what_is target_identifier = JStr ''string'' then ?ci else ?ce"
  let ?c = "?c0\<lparr>req_arguments := (req_arguments ?c0)
         (''values'' \<mapsto> JArr [JObj [(''key'', JStr ''evidence''), (''value'', JStr u1)]])\<rparr>"
  obtain x where b: "add_annotation (JStr ''source'') source_ids ?b0 =
        (if what_is source_ids = JStr ''string'' \<or> what_is source_ids = JStr ''array''
         then (?b0\<lparr>req_arguments := (req_arguments ?b0)(''values'' \<mapsto> JArr x)\<rparr>,
               Inr (JNum (int (length x))))
         else (?b0, Inl Unknown_argument))"
    using add_evidence_second [of source_ids u1 model_id u2] by blast
  let ?b = "?b0\<lparr>req_arguments := (req_arguments ?b0)(''values'' \<mapsto> JArr x)\<rparr>"
  have ci: "add_annotation (JStr ''evidence'') (JStr u1) ?ci =
      (?ci\<lparr>req_arguments := (req_arguments ?ci)
         (''values'' \<mapsto> JArr [JObj [(''key'', JStr ''evidence''), (''value'', JStr u1)]])\<rparr>,
       Inr (JNum 1))"
    by (rule add_evidence_third) (simp add: other_arguments)
  have ce: "add_annotation (JStr ''evidence'') (JStr u1) ?ce =
      (?ce\<lparr>req_arguments := (req_arguments ?ce)
         (''values'' \<mapsto> JArr [JObj [(''key'', JStr ''evidence''), (''value'', JStr u1)]])\<rparr>,
       Inr (JNum 1))"
    by (rule add_evidence_third) (simp add: other_arguments)
  have a_id: "snd (individual JUndefined ?a) = JStr u1"
    by (simp add: individual_fields(5) opt_model_fields new_request_fields)
  have ind: "truthy target_identifier \<Longrightarrow>
      req_arguments ?ci ''individual'' = Some target_identifier"
    by (simp add: individual_fields)
  have main: "add_evidence cx u1 u2 u3 evidence_id source_ids target_identifier model_id rs =
       (if what_is source_ids \<noteq> JStr ''string'' \<and> what_is source_ids \<noteq> JStr ''array''
        then (add ?a (Some ''action'') rs, Inl Unknown_argument)
        else if \<not> truthy target_identifier
        then (add ?b (Some ''action'') (add ?a (Some ''action'') rs), Inl No_target_for_evidence)
        else if what_is target_identifier \<noteq> JStr ''string''
                \<and> ensure_fact target_identifier \<noteq> Inr ()
        then (add ?b (Some ''action'') (add ?a (Some ''action'') rs), Inl Triple_not_proper_fact)
        else (add ?c (Some ''action'') (add ?b (Some ''action'') (add ?a (Some ''action'') rs)),
              Inr ()))" for rs
    using e s ensure_fact_cases [of target_identifier]
    by (auto simp: add_evidence_def add_evidence_first a_id b ci ce Let_def)
  show ?thesis
    apply (rule exI [of _ ?a], rule exI [of _ ?b], rule exI [of _ ?c])
    apply (simp only: main)
    apply (simp add: a_id)
    apply (simp add: req_fields)
    done
qed

lemma add_individual_outcome:
  "truthy ce \<Longrightarrow>
   add_individual cx u ce m rs =
     (add ((opt_model m (new_request u ''individual'' ''add''))
            \<lparr>req_arguments := (req_arguments (opt_model m (new_request u ''individual'' ''add'')))
               (''expressions'' \<mapsto> JArr [cx ce])\<rparr>) (Some ''action'') rs,
      Inr (JStr u))"
  by (simp add: add_individual_def add_evidence_first individual_fields(5) req_fields)

section \<open>What the builders do to the request set\<close>

lemma add_evidence_extends: "extends rs (fst (add_evidence cx u1 u2 u3 e s t m rs))"
proof (cases "truthy e \<and> truthy s")
  case False
  then show ?thesis by (auto simp: add_evidence_def extends_refl)
next
  case True
  from add_evidence_outcome [of e s u1 t cx u2 u3 m] True
  obtain a b c where
    "add_evidence cx u1 u2 u3 e s t m rs =
       (if what_is s \<noteq> JStr ''string'' \<and> what_is s \<noteq> JStr ''array''
        then (add a (Some ''action'') rs, Inl Unknown_argument)
        else if \<not> truthy t
        then (add b (Some ''action'') (add a (Some ''action'') rs), Inl No_target_for_evidence)
        else if what_is t \<noteq> JStr ''string'' \<and> ensure_fact t \<noteq> Inr ()
        then (add b (Some ''action'') (add a (Some ''action'') rs), Inl Triple_not_proper_fact)
        else (add c (Some ''action'') (add b (Some ''action'') (add a (Some ''action'') rs)),
              Inr ()))"
    by blast
  then show ?thesis by (simp add: extends_refl extends_add)
qed


lemma op_type_to_individual_extends:
  "extends rs (fst (op_type_to_individual cx u op ce i m rs))"
  by (simp add: op_type_to_individual_def extends_refl extends_add split: prod.splits sum.splits)


lemma op_annotation_to_target_extends:
  "extends rs (fst (op_annotation_to_target u op tg ti k v m rs))"
  by (simp add: op_annotation_to_target_def extends_refl extends_add
      split: prod.splits sum.splits)


lemma builds_extends: "builds cx rs rs' \<Longrightarrow> extends rs rs'"
  by (induction rule: builds.induct)
    (simp_all add: extends_refl extends_add add_evidence_extends op_type_to_individual_extends
      op_annotation_to_target_extends add_individual_def remove_individual_def
      add_type_to_individual_def remove_type_from_individual_def add_fact_def remove_fact_def
      remove_evidence_def add_evidence_to_last_individual_def add_evidence_to_last_fact_def
      add_annotation_to_model_def remove_annotation_from_model_def
      add_annotation_to_individual_def remove_annotation_from_individual_def
      add_annotation_to_fact_def remove_annotation_from_fact_def undo_last_model_batch_def
      redo_last_model_batch_def get_meta_def get_model_def get_undo_redo_def add_model_def
      store_model_def Let_def split: prod.splits sum.splits)



section \<open>What the serializers leave as it is\<close>

lemma structure_rs_frame:
  "rs_intention (fst (structure_rs rs)) = rs_intention rs"
  "rs_user_token (fst (structure_rs rs)) = rs_user_token rs"
  "rs_model_id (fst (structure_rs rs)) = rs_model_id rs"
  "so_intention (snd (structure_rs rs)) = rs_intention rs"
  "so_token (snd (structure_rs rs)) = rs_user_token rs"
  "so_requests (snd (structure_rs rs)) = map (\<lambda>r. snd (structure_req (rs_model_id rs) r)) (rs_requests rs)"
  "rs_requests (fst (structure_rs rs)) = map (\<lambda>r. fst (structure_req (rs_model_id rs) r)) (rs_requests rs)"
  by (simp_all add: structure_rs_def Let_def)

lemma callable_state: "fst (callable stringify rs) = fst (structure_rs rs)"
  by (simp add: callable_def Let_def split: prod.splits)

section \<open>The implicit variable of an individual\<close>




section \<open>The intention of a batch\<close>

lemma calls_intention:
  "calls cx rs rs' \<Longrightarrow> rs_intention rs = ''action'' \<Longrightarrow> rs_intention rs' = ''action''"
proof (induction rule: calls.induct)
  case (c_none rs)
  then show ?case by simp
next
  case (c_builds rs rs1 rs2)
  from builds_extends [OF c_builds.hyps(2)] c_builds.IH [OF c_builds.prems]
  show ?case by (auto simp: extends_def)
next
  case (c_structure rs rs1)
  then show ?case by (simp add: structure_rs_frame)
next
  case (c_callable rs rs1 stringify)
  then show ?case by (simp add: callable_state structure_rs_frame)
qed

text \<open>
  Claim C2. The intention of a batch only rises. A new request set has the
  intention \<^verbatim>\<open>query\<close>; \<open>add\<close> with no hint or with the hint \<^verbatim>\<open>action\<close> sets it
  to \<^verbatim>\<open>action\<close>; \<open>add\<close> with the hint \<^verbatim>\<open>query\<close> leaves it as it is. Once it is
  \<^verbatim>\<open>action\<close>, it is \<^verbatim>\<open>action\<close> after every later sequence of calls of the
  methods of the request set (\<open>add\<close> with any hint, every macro, the lookups and
  the serializers, returning or throwing), and \<open>structure\<close> reports \<^verbatim>\<open>action\<close>.
\<close>

theorem intention_monotonic:
  "rs_intention (new_request_set user_token model_id) = ''query''
   \<and> (h = None \<or> h = Some ''action'' \<longrightarrow> rs_intention (add req h rs) = ''action'')
   \<and> rs_intention (add req (Some ''query'') rs) = rs_intention rs
   \<and> (rs_intention rs = ''action'' \<and> calls cx rs rs' \<longrightarrow>
        rs_intention rs' = ''action'' \<and> so_intention (snd (structure_rs rs')) = ''action'')"
  using calls_intention [of cx rs rs']
  by (auto simp: new_request_set_def add_intention structure_rs_frame)

text \<open>The theorem at work: the first \<open>add\<close>, without a hint, raises the
  intention of a new request set, and a later \<open>add\<close> with the hint \<^verbatim>\<open>query\<close>
  does not take it back.\<close>

theorem intention_monotonic_witness:
  "rs_intention (add (new_request ''u1'' ''model'' ''undo'') None (new_request_set JNull JNull))
     = ''action''
   \<and> calls class_structure
       (add (new_request ''u1'' ''model'' ''undo'') None (new_request_set JNull JNull))
       (add (new_request ''u2'' ''meta'' ''get'') (Some ''query'')
          (add (new_request ''u1'' ''model'' ''undo'') None (new_request_set JNull JNull)))
   \<and> rs_intention
       (add (new_request ''u2'' ''meta'' ''get'') (Some ''query'')
          (add (new_request ''u1'' ''model'' ''undo'') None (new_request_set JNull JNull)))
     = ''action''
   \<and> so_intention (snd (structure_rs
       (add (new_request ''u2'' ''meta'' ''get'') (Some ''query'')
          (add (new_request ''u1'' ''model'' ''undo'') None (new_request_set JNull JNull)))))
     = ''action''"
proof -
  let ?rs0 = "new_request_set JNull JNull"
  let ?r1 = "new_request ''u1'' ''model'' ''undo''"
  let ?r2 = "new_request ''u2'' ''meta'' ''get''"
  have a: "rs_intention (add ?r1 None ?rs0) = ''action''"
    using intention_monotonic [of JNull JNull None ?r1 ?rs0 class_structure ?rs0] by simp
  have c: "calls class_structure (add ?r1 None ?rs0) (add ?r2 (Some ''query'') (add ?r1 None ?rs0))"
    by (rule c_builds [OF c_none b_add])
  from intention_monotonic [of JNull JNull None ?r1 "add ?r1 None ?rs0" class_structure
      "add ?r2 (Some ''query'') (add ?r1 None ?rs0)"] a c
  show ?thesis by simp
qed

section \<open>The requests that evidence expands to\<close>

lemma last_individual_id_add:
  "req_entity r = ''individual'' \<Longrightarrow>
   last_individual_id 0 (add r h rs) = snd (individual JUndefined r)"
  by (simp add: last_individual_id_def add_requests entity_def)

text \<open>
  Claim C3, as the code has it. Every call of \<open>add_evidence\<close> that returns,
  with an evidence id and source ids that are given, appends exactly three
  requests, for a target that is an individual id (a string) as for one that
  is a fact triple: the floating evidence individual, its source annotation,
  and the evidence annotation on the target, which is an
  \<^verbatim>\<open>individual\<close>/\<^verbatim>\<open>add-annotation\<close> request on the target id for a string and
  an \<^verbatim>\<open>edge\<close>/\<^verbatim>\<open>add-annotation\<close> request otherwise; its annotation is the pair
  of \<^verbatim>\<open>evidence\<close> and the id of the floating individual. So \<open>add_individual\<close>
  followed by \<open>add_evidence_to_last_individual\<close> appends 1 + 3 = 4 requests, and
  the individual id of the last of them, the evidence annotation, is the id
  that \<open>add_individual\<close> returned.
\<close>

theorem add_evidence_appends_three:
  "(truthy evidence_id \<and> truthy source_ids
     \<and> snd (add_evidence cx u1 u2 u3 evidence_id source_ids target_identifier model_id rs)
         = Inr ()
    \<longrightarrow> (\<exists>a b c.
           rs_requests (fst (add_evidence cx u1 u2 u3 evidence_id source_ids
                               target_identifier model_id rs)) = rs_requests rs @ [a, b, c]
         \<and> snd (individual JUndefined a) = JStr u1
         \<and> req_operation c = ''add-annotation''
         \<and> (if what_is target_identifier = JStr ''string''
             then req_entity c = ''individual''
                  \<and> req_arguments c ''individual'' = Some target_identifier
                  \<and> snd (individual JUndefined c) = target_identifier
             else req_entity c = ''edge'')
         \<and> req_arguments c ''values''
              = Some (JArr [JObj [(''key'', JStr ''evidence''), (''value'', JStr u1)]]))
      \<and> length (rs_requests (fst (add_evidence cx u1 u2 u3 evidence_id source_ids
                                    target_identifier model_id rs)))
          = length (rs_requests rs) + 3)
   \<and> (truthy class_expr \<and> u0 \<noteq> [] \<and> truthy evidence_id \<and> truthy source_ids
       \<and> (what_is source_ids = JStr ''string'' \<or> what_is source_ids = JStr ''array'')
    \<longrightarrow> snd (add_individual cx u0 class_expr model_id0 rs) = Inr (JStr u0)
      \<and> snd (add_evidence_to_last_individual cx u1 u2 u3 evidence_id source_ids model_id
               (fst (add_individual cx u0 class_expr model_id0 rs))) = Inr ()
      \<and> length (rs_requests (fst (add_evidence_to_last_individual cx u1 u2 u3 evidence_id
               source_ids model_id (fst (add_individual cx u0 class_expr model_id0 rs)))))
          = length (rs_requests rs) + 1 + 3
      \<and> req_arguments (last (rs_requests (fst (add_evidence_to_last_individual cx u1 u2 u3
               evidence_id source_ids model_id
               (fst (add_individual cx u0 class_expr model_id0 rs)))))) ''individual''
          = Some (JStr u0)
      \<and> snd (individual JUndefined (last (rs_requests (fst (add_evidence_to_last_individual
               cx u1 u2 u3 evidence_id source_ids model_id
               (fst (add_individual cx u0 class_expr model_id0 rs)))))))
          = JStr u0)"
proof (intro conjI impI)
  assume h: "truthy evidence_id \<and> truthy source_ids
     \<and> snd (add_evidence cx u1 u2 u3 evidence_id source_ids target_identifier model_id rs)
         = Inr ()"
  then have e: "truthy evidence_id" and s: "truthy source_ids" by simp_all
  from add_evidence_outcome [OF e s, of u1 target_identifier cx u2 u3 model_id]
  obtain a b c where a: "snd (individual JUndefined a) = JStr u1"
    and c: "req_operation c = ''add-annotation''"
      "if what_is target_identifier = JStr ''string''
       then req_entity c = ''individual''
            \<and> (truthy target_identifier
                 \<longrightarrow> req_arguments c ''individual'' = Some target_identifier
                   \<and> snd (individual JUndefined c) = target_identifier)
       else req_entity c = ''edge''"
      "req_arguments c ''values''
        = Some (JArr [JObj [(''key'', JStr ''evidence''), (''value'', JStr u1)]])"
    and r: "add_evidence cx u1 u2 u3 evidence_id source_ids target_identifier model_id rs =
       (if what_is source_ids \<noteq> JStr ''string'' \<and> what_is source_ids \<noteq> JStr ''array''
        then (add a (Some ''action'') rs, Inl Unknown_argument)
        else if \<not> truthy target_identifier
        then (add b (Some ''action'') (add a (Some ''action'') rs), Inl No_target_for_evidence)
        else if what_is target_identifier \<noteq> JStr ''string''
                \<and> ensure_fact target_identifier \<noteq> Inr ()
        then (add b (Some ''action'') (add a (Some ''action'') rs), Inl Triple_not_proper_fact)
        else (add c (Some ''action'') (add b (Some ''action'') (add a (Some ''action'') rs)),
              Inr ()))"
    by blast
  from h r have t: "truthy target_identifier"
    and r': "add_evidence cx u1 u2 u3 evidence_id source_ids target_identifier model_id rs =
        (add c (Some ''action'') (add b (Some ''action'') (add a (Some ''action'') rs)), Inr ())"
    by (auto split: if_splits)
  have q: "rs_requests (fst (add_evidence cx u1 u2 u3 evidence_id source_ids
                               target_identifier model_id rs)) = rs_requests rs @ [a, b, c]"
    by (simp add: r' add_requests)
  from q show "length (rs_requests (fst (add_evidence cx u1 u2 u3 evidence_id source_ids
                                    target_identifier model_id rs)))
          = length (rs_requests rs) + 3"
    by simp
  from c t have "if what_is target_identifier = JStr ''string''
             then req_entity c = ''individual''
                  \<and> req_arguments c ''individual'' = Some target_identifier
                  \<and> snd (individual JUndefined c) = target_identifier
             else req_entity c = ''edge''"
    by (simp split: if_splits)
  with q a c show "\<exists>a b c.
           rs_requests (fst (add_evidence cx u1 u2 u3 evidence_id source_ids
                               target_identifier model_id rs)) = rs_requests rs @ [a, b, c]
         \<and> snd (individual JUndefined a) = JStr u1
         \<and> req_operation c = ''add-annotation''
         \<and> (if what_is target_identifier = JStr ''string''
             then req_entity c = ''individual''
                  \<and> req_arguments c ''individual'' = Some target_identifier
                  \<and> snd (individual JUndefined c) = target_identifier
             else req_entity c = ''edge'')
         \<and> req_arguments c ''values''
              = Some (JArr [JObj [(''key'', JStr ''evidence''), (''value'', JStr u1)]])"
    by blast
next
  assume h: "truthy class_expr \<and> u0 \<noteq> [] \<and> truthy evidence_id \<and> truthy source_ids
       \<and> (what_is source_ids = JStr ''string'' \<or> what_is source_ids = JStr ''array'')"
  then have e: "truthy evidence_id" and s: "truthy source_ids" by simp_all
  let ?r0 = "(opt_model model_id0 (new_request u0 ''individual'' ''add''))
            \<lparr>req_arguments := (req_arguments (opt_model model_id0 (new_request u0 ''individual'' ''add'')))
               (''expressions'' \<mapsto> JArr [cx class_expr])\<rparr>"
  let ?rs1 = "add ?r0 (Some ''action'') rs"
  have i: "add_individual cx u0 class_expr model_id0 rs = (?rs1, Inr (JStr u0))"
    using h by (simp add: add_individual_outcome)
  have l: "last_individual_id 0 ?rs1 = JStr u0"
    by (simp add: last_individual_id_add req_fields)
  from add_evidence_outcome [OF e s, of u1 "JStr u0" cx u2 u3 model_id] h
  obtain a b c where c: "req_arguments c ''individual'' = Some (JStr u0)"
    and ci: "snd (individual JUndefined c) = JStr u0"
    and r: "add_evidence cx u1 u2 u3 evidence_id source_ids (JStr u0) model_id ?rs1 =
        (add c (Some ''action'') (add b (Some ''action'') (add a (Some ''action'') ?rs1)), Inr ())"
    by auto
  have t: "add_evidence_to_last_individual cx u1 u2 u3 evidence_id source_ids model_id ?rs1 =
        (add c (Some ''action'') (add b (Some ''action'') (add a (Some ''action'') ?rs1)), Inr ())"
    using h by (simp add: add_evidence_to_last_individual_def l r)
  show "snd (add_individual cx u0 class_expr model_id0 rs) = Inr (JStr u0)"
    by (simp add: i)
  show "snd (add_evidence_to_last_individual cx u1 u2 u3 evidence_id source_ids model_id
               (fst (add_individual cx u0 class_expr model_id0 rs))) = Inr ()"
    by (simp add: i t)
  show "length (rs_requests (fst (add_evidence_to_last_individual cx u1 u2 u3 evidence_id
               source_ids model_id (fst (add_individual cx u0 class_expr model_id0 rs)))))
          = length (rs_requests rs) + 1 + 3"
    by (simp add: i t add_requests)
  show "req_arguments (last (rs_requests (fst (add_evidence_to_last_individual cx u1 u2 u3
               evidence_id source_ids model_id
               (fst (add_individual cx u0 class_expr model_id0 rs)))))) ''individual''
          = Some (JStr u0)"
    by (simp add: i t add_requests c)
  show "snd (individual JUndefined (last (rs_requests (fst (add_evidence_to_last_individual
               cx u1 u2 u3 evidence_id source_ids model_id
               (fst (add_individual cx u0 class_expr model_id0 rs)))))))
          = JStr u0"
    by (simp add: i t add_requests ci)
qed


text \<open>The claim as the specification states it, with two requests for a
  target that is an individual id and three in the scenario, fails: the
  scenario's call appends three requests, and the scenario ends with four.\<close>

theorem add_evidence_appends_two_counterexample:
  "truthy (JStr ''ECO:0000000'') \<and> truthy (JStr ''PMID:123'')
   \<and> what_is (JStr ''gomodel:1/ind1'') = JStr ''string''
   \<and> snd (add_evidence class_structure ''u1'' ''u2'' ''u3'' (JStr ''ECO:0000000'')
          (JStr ''PMID:123'') (JStr ''gomodel:1/ind1'') JUndefined
          (new_request_set JNull JNull)) = Inr ()
   \<and> length (rs_requests (fst (add_evidence class_structure ''u1'' ''u2'' ''u3''
          (JStr ''ECO:0000000'') (JStr ''PMID:123'') (JStr ''gomodel:1/ind1'') JUndefined
          (new_request_set JNull JNull))))
       \<noteq> length (rs_requests (new_request_set JNull JNull)) + 2
   \<and> length (rs_requests (fst (add_evidence_to_last_individual class_structure
          ''u1'' ''u2'' ''u3'' (JStr ''ECO:0000000'') (JStr ''PMID:123'') JUndefined
          (fst (add_individual class_structure ''u0'' (JStr ''GO:0008150'') JUndefined
             (new_request_set JNull JNull))))))
       \<noteq> 1 + 2"
proof -
  let ?rs0 = "new_request_set JNull JNull"
  have e: "truthy (JStr ''ECO:0000000'')" and s: "truthy (JStr ''PMID:123'')"
    by simp_all
  from add_evidence_outcome [OF e s, of "''u1''" "JStr ''gomodel:1/ind1''" class_structure
      "''u2''" "''u3''" JUndefined]
  obtain a b c where
    r: "add_evidence class_structure ''u1'' ''u2'' ''u3'' (JStr ''ECO:0000000'')
          (JStr ''PMID:123'') (JStr ''gomodel:1/ind1'') JUndefined ?rs0 =
        (add c (Some ''action'') (add b (Some ''action'') (add a (Some ''action'') ?rs0)), Inr ())"
    by auto
  let ?r0 = "(opt_model JUndefined (new_request ''u0'' ''individual'' ''add''))
            \<lparr>req_arguments := (req_arguments (opt_model JUndefined (new_request ''u0'' ''individual'' ''add'')))
               (''expressions'' \<mapsto> JArr [class_structure (JStr ''GO:0008150'')])\<rparr>"
  let ?rs1 = "add ?r0 (Some ''action'') ?rs0"
  have i: "fst (add_individual class_structure ''u0'' (JStr ''GO:0008150'') JUndefined ?rs0)
      = ?rs1"
    by (simp add: add_individual_outcome)
  have l: "last_individual_id 0 ?rs1 = JStr ''u0''"
    by (simp add: last_individual_id_add req_fields)
  from add_evidence_outcome [OF e s, of "''u1''" "JStr ''u0''" class_structure
      "''u2''" "''u3''" JUndefined]
  obtain a' b' c' where
    "add_evidence class_structure ''u1'' ''u2'' ''u3'' (JStr ''ECO:0000000'')
          (JStr ''PMID:123'') (JStr ''u0'') JUndefined ?rs1 =
        (add c' (Some ''action'') (add b' (Some ''action'') (add a' (Some ''action'') ?rs1)),
         Inr ())"
    by auto
  then have t: "fst (add_evidence_to_last_individual class_structure ''u1'' ''u2'' ''u3''
        (JStr ''ECO:0000000'') (JStr ''PMID:123'') JUndefined ?rs1) =
        add c' (Some ''action'') (add b' (Some ''action'') (add a' (Some ''action'') ?rs1))"
    by (simp add: add_evidence_to_last_individual_def l)
  show ?thesis
    by (simp add: r i t add_requests)
qed

text \<open>The theorem at work: the scenario on a new request set, and then
  evidence for a fact triple.\<close>

theorem add_evidence_appends_three_witness:
  "truthy (JStr ''ECO:0000000'') \<and> truthy (JStr ''PMID:123'') \<and> truthy (JStr ''GO:0008150'')
   \<and> ''u0'' \<noteq> []
   \<and> (what_is (JStr ''PMID:123'') = JStr ''string'' \<or> what_is (JStr ''PMID:123'') = JStr ''array'')
   \<and> snd (add_individual class_structure ''u0'' (JStr ''GO:0008150'') JUndefined
            (new_request_set JNull JNull)) = Inr (JStr ''u0'')
   \<and> snd (add_evidence_to_last_individual class_structure ''u1'' ''u2'' ''u3''
            (JStr ''ECO:0000000'') (JStr ''PMID:123'') JUndefined
            (fst (add_individual class_structure ''u0'' (JStr ''GO:0008150'') JUndefined
               (new_request_set JNull JNull)))) = Inr ()
   \<and> length (rs_requests (fst (add_evidence_to_last_individual class_structure
            ''u1'' ''u2'' ''u3'' (JStr ''ECO:0000000'') (JStr ''PMID:123'') JUndefined
            (fst (add_individual class_structure ''u0'' (JStr ''GO:0008150'') JUndefined
               (new_request_set JNull JNull)))))) = 4
   \<and> snd (individual JUndefined (last (rs_requests (fst (add_evidence_to_last_individual
            class_structure ''u1'' ''u2'' ''u3'' (JStr ''ECO:0000000'') (JStr ''PMID:123'')
            JUndefined
            (fst (add_individual class_structure ''u0'' (JStr ''GO:0008150'') JUndefined
               (new_request_set JNull JNull)))))))) = JStr ''u0''
   \<and> snd (add_evidence class_structure ''u4'' ''u5'' ''u6''
            (JStr ''ECO:0000000'') (JStr ''PMID:123'')
            (JArr [JStr ''i1'', JStr ''i2'', JStr ''part_of'']) JUndefined
            (fst (add_evidence_to_last_individual class_structure
            ''u1'' ''u2'' ''u3'' (JStr ''ECO:0000000'') (JStr ''PMID:123'') JUndefined
            (fst (add_individual class_structure ''u0'' (JStr ''GO:0008150'') JUndefined
               (new_request_set JNull JNull)))))) = Inr ()
   \<and> length (rs_requests (fst (add_evidence class_structure ''u4'' ''u5'' ''u6''
            (JStr ''ECO:0000000'') (JStr ''PMID:123'')
            (JArr [JStr ''i1'', JStr ''i2'', JStr ''part_of'']) JUndefined
            (fst (add_evidence_to_last_individual class_structure
            ''u1'' ''u2'' ''u3'' (JStr ''ECO:0000000'') (JStr ''PMID:123'') JUndefined
            (fst (add_individual class_structure ''u0'' (JStr ''GO:0008150'') JUndefined
               (new_request_set JNull JNull)))))))) = 7"
proof -
  let ?rs0 = "new_request_set JNull JNull"
  let ?rs2 = "fst (add_evidence_to_last_individual class_structure
            ''u1'' ''u2'' ''u3'' (JStr ''ECO:0000000'') (JStr ''PMID:123'') JUndefined
            (fst (add_individual class_structure ''u0'' (JStr ''GO:0008150'') JUndefined ?rs0)))"
  have e: "truthy (JStr ''ECO:0000000'')" and s: "truthy (JStr ''PMID:123'')"
    by simp_all
  have ok: "snd (add_evidence class_structure ''u4'' ''u5'' ''u6''
            (JStr ''ECO:0000000'') (JStr ''PMID:123'')
            (JArr [JStr ''i1'', JStr ''i2'', JStr ''part_of'']) JUndefined ?rs2) = Inr ()"
    using add_evidence_outcome [OF e s, of "''u4''" "JArr [JStr ''i1'', JStr ''i2'', JStr ''part_of'']"
        class_structure "''u5''" "''u6''" JUndefined]
    by (auto simp: ensure_fact_def)
  have n: "length (rs_requests ?rs0) = 0"
    by (simp add: new_request_set_def)
  from add_evidence_appends_three [of "JStr ''ECO:0000000''" "JStr ''PMID:123''"
      class_structure "''u4''" "''u5''" "''u6''" "JArr [JStr ''i1'', JStr ''i2'', JStr ''part_of'']"
      JUndefined ?rs2 "JStr ''GO:0008150''" "''u0''" JUndefined]
    add_evidence_appends_three [of "JStr ''ECO:0000000''" "JStr ''PMID:123''"
      class_structure "''u1''" "''u2''" "''u3''" JUndefined
      JUndefined ?rs0 "JStr ''GO:0008150''" "''u0''" JUndefined] ok n
  show ?thesis by simp
qed

section \<open>Backward lookup with a skip count\<close>

text \<open>Run from \<open>ugh = k\<close>, the loop sees the first \<open>k\<close> requests from the last
  to the first; of those whose entity is the one looked for it passes over
  \<open>n\<close> and answers with the next.\<close>

lemma last_individual_id_from_eq:
  "k \<le> length reqs \<Longrightarrow>
   last_individual_id_from reqs k n =
     (let ms = filter (\<lambda>r. entity r = ''individual'') (rev (take k reqs))
      in if n < length ms then snd (individual JUndefined (ms ! n)) else JNull)"
proof (induction k arbitrary: n)
  case 0
  then show ?case by simp
next
  case (Suc k)
  then have k: "k < length reqs" and k': "k \<le> length reqs" by simp_all
  have tk: "rev (take (Suc k) reqs) = reqs ! k # rev (take k reqs)"
    using k by (simp add: take_Suc_conv_app_nth)
  show ?case
  proof (cases "entity (reqs ! k) = ''individual''")
    case False
    then show ?thesis using Suc.IH [OF k'] tk by (simp add: Let_def)
  next
    case True
    show ?thesis
    proof (cases n)
      case 0
      then show ?thesis using True tk by (simp add: Let_def)
    next
      case (Suc m)
      then show ?thesis using True tk Suc.IH [OF k', of m] by (simp add: Let_def)
    qed
  qed
qed

lemma last_fact_triple_from_eq:
  "k \<le> length reqs \<Longrightarrow>
   last_fact_triple_from reqs k n =
     (let ms = filter (\<lambda>r. entity r = ''edge'') (rev (take k reqs))
      in if n < length ms
         then JArr [snd (subject JUndefined (ms ! n)), snd (object JUndefined (ms ! n)),
                    snd (predicate JUndefined (ms ! n))]
         else JNull)"
proof (induction k arbitrary: n)
  case 0
  then show ?case by simp
next
  case (Suc k)
  then have k: "k < length reqs" and k': "k \<le> length reqs" by simp_all
  have tk: "rev (take (Suc k) reqs) = reqs ! k # rev (take k reqs)"
    using k by (simp add: take_Suc_conv_app_nth)
  show ?case
  proof (cases "entity (reqs ! k) = ''edge''")
    case False
    then show ?thesis using Suc.IH [OF k'] tk by (simp add: Let_def)
  next
    case True
    show ?thesis
    proof (cases n)
      case 0
      then show ?thesis using True tk by (simp add: Let_def)
    next
      case (Suc m)
      then show ?thesis using True tk Suc.IH [OF k', of m] by (simp add: Let_def)
    qed
  qed
qed

text \<open>
  Claim C4. For every request set and every natural number \<open>n\<close> to skip,
  \<open>last_individual_id\<close> walks the queue from the most recently added request
  backward, looks only at the requests whose entity is \<^verbatim>\<open>individual\<close>, passes over
  exactly \<open>n\<close> of them and returns what \<^verbatim>\<open>individual()\<close> of the next one
  returns; \<open>last_fact_triple\<close> does the same with the requests whose entity is
  \<^verbatim>\<open>edge\<close> and returns the list of \<^verbatim>\<open>subject()\<close>, \<^verbatim>\<open>object()\<close> and
  \<^verbatim>\<open>predicate()\<close> of the match. When the queue holds fewer than \<open>n + 1\<close>
  requests of the kind, the result is \<^verbatim>\<open>null\<close>.
\<close>

theorem backward_lookup:
  "last_individual_id n rs =
     (let ms = filter (\<lambda>r. entity r = ''individual'') (rev (rs_requests rs))
      in if n < length ms then snd (individual JUndefined (ms ! n)) else JNull)
   \<and> last_fact_triple n rs =
     (let ms = filter (\<lambda>r. entity r = ''edge'') (rev (rs_requests rs))
      in if n < length ms
         then JArr [snd (subject JUndefined (ms ! n)), snd (object JUndefined (ms ! n)),
                    snd (predicate JUndefined (ms ! n))]
         else JNull)"
  by (simp add: last_individual_id_def last_fact_triple_def last_individual_id_from_eq
      last_fact_triple_from_eq)


section \<open>Fact triples\<close>

lemma ensure_fact_eq:
  "ensure_fact triple = Inl Triple_not_proper_fact \<longleftrightarrow>
     \<not> (truthy triple \<and> truthy (js_index triple 0) \<and> truthy (js_index triple 1)
        \<and> truthy (js_index triple 2))"
  "ensure_fact triple = Inr () \<longleftrightarrow>
     (truthy triple \<and> truthy (js_index triple 0) \<and> truthy (js_index triple 1)
        \<and> truthy (js_index triple 2))"
  by (simp_all add: ensure_fact_def)

lemma annotation_to_fact_outcome:
  assumes "ensure_fact triple = Inr ()" and "op = ''add'' \<or> op = ''remove''"
  shows "snd (op_annotation_to_target u op ''edge'' triple key val model_id rs)
     = (if truthy key \<and> truthy val \<and> what_is val \<noteq> JStr ''string''
           \<and> what_is val \<noteq> JStr ''array''
        then Inl Unknown_argument else Inr ())"
proof -
  let ?req = "fact (js_index triple 0) (js_index triple (Suc 0)) (js_index triple 2)
                (opt_model model_id (new_request u ''edge'' (op @ ''-annotation'')))"
  have "req_arguments ?req ''values'' = None"
    by (simp add: other_arguments)
  from add_annotation_fresh [OF this, of key val] assms
  show ?thesis
    by (auto simp: op_annotation_to_target_def identify_target_def)
qed

text \<open>
  Claim C5, as the code has it. \<open>add_fact\<close>, \<open>remove_fact\<close>,
  \<open>add_annotation_to_fact\<close> and \<open>remove_annotation_from_fact\<close> throw
  \<^verbatim>\<open>triple did not look like a proper fact\<close> exactly when the triple, its
  subject, its object or its predicate is falsy: a field that is absent
  (\<^verbatim>\<open>undefined\<close> or \<^verbatim>\<open>null\<close>, or beyond the end of the list) or that is the
  empty string. For every triple whose three fields are non-empty strings
  they do not throw it. The fields of a list of three are its elements.
\<close>

theorem fact_triple_checked:
  "(snd (add_fact u triple model_id rs) = Inl Triple_not_proper_fact
      \<longleftrightarrow> \<not> (truthy triple \<and> truthy (js_index triple 0) \<and> truthy (js_index triple 1)
              \<and> truthy (js_index triple 2)))
   \<and> (snd (remove_fact u triple model_id rs) = Inl Triple_not_proper_fact
      \<longleftrightarrow> \<not> (truthy triple \<and> truthy (js_index triple 0) \<and> truthy (js_index triple 1)
              \<and> truthy (js_index triple 2)))
   \<and> (snd (add_annotation_to_fact u key val triple model_id rs) = Inl Triple_not_proper_fact
      \<longleftrightarrow> \<not> (truthy triple \<and> truthy (js_index triple 0) \<and> truthy (js_index triple 1)
              \<and> truthy (js_index triple 2)))
   \<and> (snd (remove_annotation_from_fact u key val triple model_id rs)
        = Inl Triple_not_proper_fact
      \<longleftrightarrow> \<not> (truthy triple \<and> truthy (js_index triple 0) \<and> truthy (js_index triple 1)
              \<and> truthy (js_index triple 2)))
   \<and> (truthy (JArr [sub, obj, pred] :: jsval) \<and> js_index (JArr [sub, obj, pred]) 0 = sub
      \<and> js_index (JArr [sub, obj, pred]) 1 = obj \<and> js_index (JArr [sub, obj, pred]) 2 = pred)"
proof -
  have c: "ensure_fact triple = Inr () \<or> ensure_fact triple = Inl Triple_not_proper_fact"
    by (rule ensure_fact_cases)
  have 1: "snd (add_fact u triple model_id rs) = Inl Triple_not_proper_fact
      \<longleftrightarrow> ensure_fact triple = Inl Triple_not_proper_fact"
    using c by (auto simp: add_fact_def)
  have 2: "snd (remove_fact u triple model_id rs) = Inl Triple_not_proper_fact
      \<longleftrightarrow> ensure_fact triple = Inl Triple_not_proper_fact"
    using c by (auto simp: remove_fact_def)
  have 3: "snd (add_annotation_to_fact u key val triple model_id rs) = Inl Triple_not_proper_fact
      \<longleftrightarrow> ensure_fact triple = Inl Triple_not_proper_fact"
    using c annotation_to_fact_outcome [of triple "''add''" u key val model_id rs]
    by (auto simp: add_annotation_to_fact_def split: if_splits)
  have 4: "snd (remove_annotation_from_fact u key val triple model_id rs)
        = Inl Triple_not_proper_fact
      \<longleftrightarrow> ensure_fact triple = Inl Triple_not_proper_fact"
    using c annotation_to_fact_outcome [of triple "''remove''" u key val model_id rs]
    by (auto simp: remove_annotation_from_fact_def split: if_splits)
  show ?thesis
    by (simp only: 1 2 3 4 ensure_fact_eq) simp
qed

text \<open>The claim as the specification states it, that a triple with all three
  fields present is accepted, fails: a list of three strings whose object is
  the empty string is rejected.\<close>

theorem fact_triple_empty_field_counterexample:
  "js_index (JArr [JStr ''i1'', JStr '''', JStr ''part_of'']) 0 = JStr ''i1''
   \<and> js_index (JArr [JStr ''i1'', JStr '''', JStr ''part_of'']) 1 = JStr ''''
   \<and> js_index (JArr [JStr ''i1'', JStr '''', JStr ''part_of'']) 2 = JStr ''part_of''
   \<and> snd (add_fact ''u'' (JArr [JStr ''i1'', JStr '''', JStr ''part_of'']) JUndefined
        (new_request_set JNull JNull)) = Inl Triple_not_proper_fact"
  by (simp add: add_fact_def ensure_fact_def)

section \<open>The value of a request variable\<close>

text \<open>
  Claim C6, as the code has it. A request variable starts with the value
  given to the constructor, which marks it as set, or else with the fresh
  uuid. Every call \<^verbatim>\<open>value(w)\<close> with a truthy \<open>w\<close> stores \<open>w\<close> and marks the
  variable as set, also when it was set before; a call with no argument or
  with a falsy one leaves the value and the mark as they are. The mark, once
  there, stays. Every call returns the value stored after it.
\<close>

theorem value_set_by_every_call:
  "rv_var (new_request_variable u v) = (if truthy v then v else JStr u)
   \<and> set_p (new_request_variable u v) = truthy v
   \<and> rv_var (fst (value_rv w rv)) = (if truthy w then w else rv_var rv)
   \<and> set_p (fst (value_rv w rv)) = (truthy w \<or> set_p rv)
   \<and> snd (value_rv w rv) = rv_var (fst (value_rv w rv))"
  by (simp add: value_rv_def new_request_variable_def set_p_def Let_def)

text \<open>The claim as the specification states it, that after one explicit set
  no later \<^verbatim>\<open>value(w)\<close> changes the value, fails: a variable constructed
  with \<^verbatim>\<open>'a'\<close> holds \<^verbatim>\<open>'b'\<close> after \<^verbatim>\<open>value('b')\<close>.\<close>

theorem value_overwritten_counterexample:
  "set_p (new_request_variable ''u'' (JStr ''a''))
   \<and> rv_var (new_request_variable ''u'' (JStr ''a'')) = JStr ''a''
   \<and> rv_var (fst (value_rv (JStr ''b'') (new_request_variable ''u'' (JStr ''a''))))
       \<noteq> rv_var (new_request_variable ''u'' (JStr ''a''))"
  by (simp add: value_rv_def new_request_variable_def set_p_def)

section \<open>Serialization and the default model id\<close>









section \<open>The encoded form of a batch\<close>











section \<open>Evidence without a target\<close>

text \<open>
  Claim C9. \<open>add_evidence\<close> looks for its target only after it has queued two
  requests. For every request set, a call with an evidence id and source ids
  that are given (truthy; the source ids a string or a list) and with no
  target throws \<^verbatim>\<open>no target identified for evidence add\<close>, and after the throw
  the queue is the old queue followed by two requests, the floating evidence
  individual (\<^verbatim>\<open>individual\<close>/\<^verbatim>\<open>add\<close>) and its source annotation
  (\<^verbatim>\<open>individual\<close>/\<^verbatim>\<open>add-annotation\<close>), and the intention is \<^verbatim>\<open>action\<close>.
\<close>

theorem add_evidence_without_target:
  assumes e: "truthy evidence_id" and s: "truthy source_ids"
    and w: "what_is source_ids = JStr ''string'' \<or> what_is source_ids = JStr ''array''"
    and t: "\<not> truthy target_identifier"
  shows "snd (add_evidence cx u1 u2 u3 evidence_id source_ids target_identifier model_id rs)
           = Inl No_target_for_evidence
       \<and> (\<exists>a b. rs_requests (fst (add_evidence cx u1 u2 u3 evidence_id source_ids
                      target_identifier model_id rs)) = rs_requests rs @ [a, b]
              \<and> req_entity a = ''individual'' \<and> req_operation a = ''add''
              \<and> req_entity b = ''individual'' \<and> req_operation b = ''add-annotation'')
       \<and> length (rs_requests (fst (add_evidence cx u1 u2 u3 evidence_id source_ids
                    target_identifier model_id rs)))
           = length (rs_requests rs) + 2
       \<and> rs_intention (fst (add_evidence cx u1 u2 u3 evidence_id source_ids
                    target_identifier model_id rs)) = ''action''"
proof -
  from add_evidence_outcome [OF e s, of u1 target_identifier cx u2 u3 model_id] w t
  obtain a b where ab: "req_entity a = ''individual''" "req_operation a = ''add''"
      "req_entity b = ''individual''" "req_operation b = ''add-annotation''"
    and r: "add_evidence cx u1 u2 u3 evidence_id source_ids target_identifier model_id rs =
       (add b (Some ''action'') (add a (Some ''action'') rs), Inl No_target_for_evidence)"
    by auto
  have "rs_requests (fst (add_evidence cx u1 u2 u3 evidence_id source_ids
            target_identifier model_id rs)) = rs_requests rs @ [a, b]"
    by (simp add: r add_requests)
  with ab r show ?thesis by (simp add: add_intention)
qed


text \<open>The theorem at work on a new request set, whose intention was
  \<^verbatim>\<open>query\<close>.\<close>

theorem add_evidence_without_target_witness:
  "truthy (JStr ''ECO:0000000'') \<and> truthy (JStr ''PMID:123'')
   \<and> (what_is (JStr ''PMID:123'') = JStr ''string'' \<or> what_is (JStr ''PMID:123'') = JStr ''array'')
   \<and> \<not> truthy JUndefined
   \<and> snd (add_evidence class_structure ''u1'' ''u2'' ''u3'' (JStr ''ECO:0000000'')
          (JStr ''PMID:123'') JUndefined JUndefined (new_request_set JNull JNull))
        = Inl No_target_for_evidence
   \<and> length (rs_requests (fst (add_evidence class_structure ''u1'' ''u2'' ''u3''
          (JStr ''ECO:0000000'') (JStr ''PMID:123'') JUndefined JUndefined
          (new_request_set JNull JNull)))) = 2
   \<and> rs_intention (fst (add_evidence class_structure ''u1'' ''u2'' ''u3''
          (JStr ''ECO:0000000'') (JStr ''PMID:123'') JUndefined JUndefined
          (new_request_set JNull JNull))) = ''action''
   \<and> rs_intention (new_request_set JNull JNull) = ''query''"
  using add_evidence_without_target [of "JStr ''ECO:0000000''" "JStr ''PMID:123''" JUndefined
      class_structure "''u1''" "''u2''" "''u3''" JUndefined "new_request_set JNull JNull"]
  by (simp add: new_request_set_def)

section \<open>Type operations with a missing argument\<close>

text \<open>
  Claim C10. \<open>add_type_to_individual\<close> and \<open>remove_type_from_individual\<close> do
  nothing, silently, when an argument is missing: for every request set, if
  the class expression or the individual id is absent (or falsy in another
  way), the call returns the request set as it was, with no request appended
  and the intention unchanged, and throws nothing.
\<close>

theorem type_to_individual_missing_argument:
  "\<not> truthy class_expr \<or> \<not> truthy individual_id \<Longrightarrow>
   add_type_to_individual cx u class_expr individual_id model_id rs = (rs, Inr ())
   \<and> remove_type_from_individual cx u class_expr individual_id model_id rs = (rs, Inr ())"
  by (auto simp: add_type_to_individual_def remove_type_from_individual_def
      op_type_to_individual_def)

text \<open>The theorem at work: a call without a class expression and a call
  without an individual id.\<close>

theorem type_to_individual_missing_argument_witness:
  "\<not> truthy JUndefined \<and> \<not> truthy JNull
   \<and> add_type_to_individual class_structure ''u1'' JUndefined (JStr ''gomodel:1/ind1'')
        JUndefined (new_request_set JNull JNull) = (new_request_set JNull JNull, Inr ())
   \<and> remove_type_from_individual class_structure ''u1'' (JStr ''GO:0008150'') JNull
        JUndefined (new_request_set JNull JNull) = (new_request_set JNull JNull, Inr ())"
  using type_to_individual_missing_argument [of JUndefined "JStr ''gomodel:1/ind1''"
      class_structure "''u1''" JUndefined "new_request_set JNull JNull"]
    type_to_individual_missing_argument [of "JStr ''GO:0008150''" JNull
      class_structure "''u1''" JUndefined "new_request_set JNull JNull"]
  by simp

end
